theory Spec2Isabelle
  imports Complex_Main
begin

section \<open>Data model\<close>

text \<open>
  The scheduler of \<^verbatim>\<open>src/src/trial_scheduler.py\<close> and the tuner of
  \<^verbatim>\<open>src/src/tuner.py\<close> exchange \<^verbatim>\<open>TrialState\<close> objects. The
  modules \<^verbatim>\<open>trial_state.py\<close>, \<^verbatim>\<open>trial_phase.py\<close>,
  \<^verbatim>\<open>utils.py\<close> and \<^verbatim>\<open>config.py\<close> are not part of the sources, so
  the enumerations and the fields of the records below follow section 3 of the
  specification. Python integers are \<open>int\<close>; Python floats are modelled by \<open>real\<close>
  (rounding is not modelled).
\<close>

datatype TrialStatus = PENDING | RUNNING | PAUSE | NEED_MUTATION | TERMINATE

datatype WorkerType = CPU | GPU

record Hyperparameter =
  lr :: real
  momentum :: real
  batch_size :: int
  model_type :: string

text \<open>
  The field \<open>hyperparameter\<close> is a parameter of the record type: a trial state that has
  crossed an actor boundary is a value (\<open>Hyperparameter TrialState\<close>), whereas inside the
  tuner the attribute is a reference to a mutable \<^verbatim>\<open>Hyperparameter\<close> object
  (\<open>addr TrialState\<close>). The attribute \<^verbatim>\<open>id\<close> is called \<open>trial_id\<close>.
  \<^verbatim>\<open>worker_type = None\<close> is \<open>None\<close>.
\<close>

record 'h TrialState =
  trial_id :: int
  hyperparameter :: 'h
  checkpoint :: "nat option"
  iteration :: int
  stop_iteration :: int
  phase :: int
  accuracy :: real
  status :: TrialStatus
  worker_id :: int
  worker_type :: "WorkerType option"
  device_iteration_count :: "WorkerType \<Rightarrow> int"

type_synonym trial = "Hyperparameter TrialState"

type_synonym ActorHandle = nat

text \<open>
  An \<^verbatim>\<open>ObjectRef\<close> is only ever produced by
  \<^verbatim>\<open>worker.assign_trial.remote(trial_state)\<close>: it names the worker and the trial
  state that was sent.
\<close>

datatype ObjectRef = ObjectRef ActorHandle trial

datatype error = IndexError | RayError string

datatype level = DEBUG | INFO | WARNING | ERROR

text \<open>The log records of the scheduler, by the data they are formatted from.\<close>

datatype message =
    Training_started
  | All_trials_done
  | Pending_list "int list"
  | Phase_updated int
  | Preempt_trial int
  | Trial_done int int real
  | Completed_list "int list"
  | Trial_returned int int int real
  | Collision int
  | Future_failed error
  | Worker_count WorkerType int

text \<open>
  Everything the scheduler does to the outside world, in program order: requests to
  worker actors, requests to the tuner actor, log records and printed lines.
\<close>

datatype effect =
    Get_worker_type ActorHandle
  | Get_available_slots ActorHandle
  | Get_active_trials ActorHandle
  | Assign_trial ActorHandle trial
  | Send_signal ActorHandle int
  | Update_phase ActorHandle int
  | Get_trial_progress
  | Tuner_mutation trial
  | Record_trial_progress trial
  | Log level message
  | Print_iteration_count "(int \<times> int \<times> int) list" "int \<times> int"

text \<open>
  What the other actors answer when asked. The worker actors and the object store are
  not part of the sources, and the tuner runs beside the scheduler; their answers during
  one pass of the scheduler's loop are inputs of the model:
  \<^verbatim>\<open>get_available_slots\<close> and \<^verbatim>\<open>get_active_trials\<close> of each worker,
  \<^verbatim>\<open>get_trial_progress\<close> and \<^verbatim>\<open>mutation\<close> of the tuner, which handles
  \<^verbatim>\<open>ray.wait\<close> finds ready, and what \<^verbatim>\<open>ray.get\<close> of a handle yields
  (a trial state, or the exception it raises). The requests of the dispatch
  (\<^verbatim>\<open>get_trial_progress\<close>, \<^verbatim>\<open>update_phase\<close>,
  \<^verbatim>\<open>get_available_slots\<close>, \<^verbatim>\<open>get_active_trials\<close>,
  \<^verbatim>\<open>send_signal\<close>) are waited for with \<^verbatim>\<open>ray.get\<close> outside any
  \<^verbatim>\<open>try\<close>: \<open>dispatch_failure\<close> is the exception that one of them raises in this
  pass, if any.
\<close>

record environment =
  available_slots :: "ActorHandle \<Rightarrow> int"
  active_trials :: "ActorHandle \<Rightarrow> trial list"
  tuner_progress :: "trial list"
  tuner_mutation :: "trial \<Rightarrow> error + trial"
  ready :: "ObjectRef \<Rightarrow> bool"
  ray_get :: "ObjectRef \<Rightarrow> error + trial"
  dispatch_failure :: "error option"

text \<open>
  \<^verbatim>\<open>TrialPhase(STOP_ITERATION, PHASE_ITERATION)\<close>: the two constants of
  \<^verbatim>\<open>config.py\<close> are fields, set at construction.
\<close>

record TrialPhase =
  phase_stop_iteration :: int
  phase_iteration :: int
  current_phase :: int

text \<open>
  The attributes of \<^verbatim>\<open>TrialScheduler\<close> that its methods read or write. The
  field \<open>effects\<close> is the record of what the scheduler has done to the outside world so
  far (it stands for the logger, the standard output and the actor handles).
\<close>

record TrialScheduler =
  trial_phase :: TrialPhase
  pending_trial_states :: "trial list"
  completed_trial_states :: "trial list"
  waiting_trial_states :: "trial list"
  trial_state_nums :: int
  running_futures :: "ObjectRef list"
  workers :: "ActorHandle list"
  gpu_workers :: "ActorHandle list"
  cpu_workers :: "ActorHandle list"
  effects :: "effect list"

section \<open>Python's \<^verbatim>\<open>max\<close> and \<^verbatim>\<open>min\<close> with a key\<close>

text \<open>
  \<^verbatim>\<open>max(xs, key=k)\<close> returns the first element whose key is maximal,
  \<^verbatim>\<open>min(xs, key=k)\<close> the first whose key is minimal; both raise on an empty
  sequence, so they are given the head and the tail of a non-empty list.
\<close>

fun py_max :: "('a \<Rightarrow> 'k::linorder) \<Rightarrow> 'a \<Rightarrow> 'a list \<Rightarrow> 'a" where
  "py_max key best [] = best"
| "py_max key best (x # xs) = py_max key (if key best < key x then x else best) xs"

fun py_min :: "('a \<Rightarrow> 'k::linorder) \<Rightarrow> 'a \<Rightarrow> 'a list \<Rightarrow> 'a" where
  "py_min key best [] = best"
| "py_min key best (x # xs) = py_min key (if key x < key best then x else best) xs"

section \<open>The dispatch strategies\<close>

text \<open>
  \<^verbatim>\<open>[(worker, slots) for worker, slots in zip(workers, ray.get(futures)) if slots]\<close>:
  an integer is true when it is not zero.
\<close>

definition available_workers :: "environment \<Rightarrow> ActorHandle list \<Rightarrow> (ActorHandle \<times> int) list" where
  "available_workers env ws =
     filter (\<lambda>(worker, slots). slots \<noteq> 0) (zip ws (map (available_slots env) ws))"

text \<open>
  \<^verbatim>\<open>[(worker, min(trials, key=iteration)) for worker, trials in zip(cpu_workers, ...) if len(trials) > 0]\<close>
\<close>

fun running_cpu_workers :: "environment \<Rightarrow> ActorHandle list \<Rightarrow> (ActorHandle \<times> trial) list" where
  "running_cpu_workers env [] = []"
| "running_cpu_workers env (w # ws) =
     (case active_trials env w of
        [] \<Rightarrow> running_cpu_workers env ws
      | a # as \<Rightarrow> (w, py_min iteration a as) # running_cpu_workers env ws)"

text \<open>
  A strategy returns the optional handle, the pending list as it has left it
  (\<^verbatim>\<open>pending_trial_states.remove\<close> works in place) and its effects. The
  parameters \<open>pending\<close>, \<open>gpus\<close>, \<open>cpus\<close> and \<open>tp\<close> are
  \<^verbatim>\<open>pending_trial_states\<close>, \<^verbatim>\<open>gpu_workers\<close>, \<^verbatim>\<open>cpu_workers\<close>
  and \<^verbatim>\<open>trial_phase\<close>. The requests to the workers are assumed to be answered.
  In \<open>round_robin_strategy\<close>, \<open>assign_to_gpu\<close> is the part of the function after
  the CPU block, reached when no CPU worker is free or no pending trial is in phase.
\<close>

definition round_robin_strategy ::
  "environment \<Rightarrow> trial list \<Rightarrow> ActorHandle list \<Rightarrow> ActorHandle list \<Rightarrow> TrialPhase
     \<Rightarrow> ObjectRef option \<times> trial list \<times> effect list" where
  "round_robin_strategy env pending gpus cpus tp =
     (case pending of
        [] \<Rightarrow> (None, pending, [])
      | p # ps \<Rightarrow>
          (let cpu_queries = map Get_available_slots cpus;
               available_cpus = map fst (available_workers env cpus);
               available_trials = filter (\<lambda>t. phase t \<le> current_phase tp) pending;
               assign_to_gpu =
                 (let gpu_queries = map Get_available_slots gpus
                  in (case available_workers env gpus of
                        [] \<Rightarrow> (None, pending, cpu_queries @ gpu_queries)
                      | g # gs \<Rightarrow>
                          (let worker = fst (py_max snd g gs);
                               trial_state = py_min iteration p ps
                           in (Some (ObjectRef worker trial_state),
                               remove1 trial_state pending,
                               cpu_queries @ gpu_queries @ [Assign_trial worker trial_state]))))
           in (case available_cpus of
                 [] \<Rightarrow> assign_to_gpu
               | worker # others \<Rightarrow>
                   (case available_trials of
                      [] \<Rightarrow> assign_to_gpu
                    | c # cs \<Rightarrow>
                        (let trial_state = py_max iteration c cs
                         in (Some (ObjectRef worker trial_state),
                             remove1 trial_state pending,
                             cpu_queries @ [Assign_trial worker trial_state]))))))"

definition gpu_first_strategy ::
  "environment \<Rightarrow> trial list \<Rightarrow> ActorHandle list \<Rightarrow> ActorHandle list
     \<Rightarrow> ObjectRef option \<times> trial list \<times> effect list" where
  "gpu_first_strategy env pending gpus cpus =
     (let gpu_queries = map Get_available_slots gpus
      in case available_workers env gpus of
           [] \<Rightarrow> (None, pending, gpu_queries)
         | g # gs \<Rightarrow>
             (case pending of
                p # ps \<Rightarrow>
                  (let worker = fst (py_max snd g gs);
                       trial_state = py_min iteration p ps
                   in (Some (ObjectRef worker trial_state),
                       remove1 trial_state pending,
                       gpu_queries @ [Assign_trial worker trial_state]))
              | [] \<Rightarrow>
                  (let cpu_queries = map Get_active_trials cpus
                   in (case running_cpu_workers env cpus of
                         [] \<Rightarrow> (None, pending, gpu_queries @ cpu_queries)
                       | r # rs \<Rightarrow>
                           (case py_min (\<lambda>x. iteration (snd x)) r rs of
                              (worker, trial_state) \<Rightarrow>
                                (None, pending,
                                 gpu_queries @ cpu_queries @
                                 [Log INFO (Preempt_trial (trial_id trial_state)),
                                  Send_signal worker (trial_id trial_state)]))))))"

section \<open>The scheduler\<close>

text \<open>
  Modelled from the spec: \<^verbatim>\<open>TrialPhase.update_phase\<close> (its module
  \<^verbatim>\<open>trial_phase.py\<close> is not part of the sources). Section 3: given the population's
  minimum iteration \<open>m\<close>, the phase is \<open>floor(m / phase_iteration)\<close> capped at
  \<open>floor(stop_iteration / phase_iteration)\<close>, and it never decreases; section 4.1: an
  empty input changes nothing. The quotients are floor divisions of integers, for a
  positive \<open>phase_iteration\<close> (the specification says nothing of a zero one).
\<close>

definition TrialPhase_update_phase :: "TrialPhase \<Rightarrow> trial list \<Rightarrow> TrialPhase" where
  "TrialPhase_update_phase tp trials =
     (case trials of
        [] \<Rightarrow> tp
      | t # ts \<Rightarrow>
          let m = iteration (py_min iteration t ts);
              new = min (m div phase_iteration tp) (phase_stop_iteration tp div phase_iteration tp)
          in if current_phase tp < new then tp\<lparr>current_phase := new\<rparr> else tp)"

definition emit :: "effect list \<Rightarrow> TrialScheduler \<Rightarrow> TrialScheduler" where
  "emit es s = s\<lparr>effects := effects s @ es\<rparr>"

text \<open>
  \<^verbatim>\<open>TrialScheduler.__init__\<close>: the population size is the length of the list
  of trial states handed over, and the workers are split by the type each reports. The
  phase grid is \<^verbatim>\<open>TrialPhase(STOP_ITERATION, PHASE_ITERATION)\<close>, which starts in
  phase 0. Each of the two list comprehensions asks every worker for its type; the two
  debug records follow. The attributes \<^verbatim>\<open>tuner\<close>, \<^verbatim>\<open>logger\<close>,
  \<^verbatim>\<open>_previous_time\<close> and \<^verbatim>\<open>idle_gpu_count\<close> are read by no method
  modelled here and have no field.
\<close>

definition TrialScheduler_init ::
  "int \<Rightarrow> int \<Rightarrow> (ActorHandle \<Rightarrow> WorkerType) \<Rightarrow> ActorHandle list \<Rightarrow> trial list \<Rightarrow> TrialScheduler" where
  "TrialScheduler_init STOP_ITERATION PHASE_ITERATION get_worker_type ws trial_states =
     \<lparr>trial_phase = \<lparr>phase_stop_iteration = STOP_ITERATION,
                      phase_iteration = PHASE_ITERATION, current_phase = 0\<rparr>,
      pending_trial_states = trial_states,
      completed_trial_states = [],
      waiting_trial_states = [],
      trial_state_nums = int (length trial_states),
      running_futures = [],
      workers = ws,
      gpu_workers = filter (\<lambda>w. get_worker_type w = GPU) ws,
      cpu_workers = filter (\<lambda>w. get_worker_type w = CPU) ws,
      effects =
        map Get_worker_type ws @ map Get_worker_type ws @
        [Log DEBUG (Worker_count GPU (int (length (filter (\<lambda>w. get_worker_type w = GPU) ws)))),
         Log DEBUG (Worker_count CPU (int (length (filter (\<lambda>w. get_worker_type w = CPU) ws))))]\<rparr>"

definition update_phase :: "environment \<Rightarrow> TrialScheduler \<Rightarrow> TrialScheduler" where
  "update_phase env s =
     (let old = current_phase (trial_phase s);
          tp = TrialPhase_update_phase (trial_phase s) (tuner_progress env);
          s1 = emit [Get_trial_progress] (s\<lparr>trial_phase := tp\<rparr>)
      in if old \<noteq> current_phase tp
         then emit (Log INFO (Phase_updated (current_phase tp))
                    # map (\<lambda>worker. Update_phase worker (current_phase tp)) (workers s)) s1
         else s1)"

text \<open>
  The strategy \<^verbatim>\<open>assign_trial_to_worker\<close> takes on this pass: round-robin when
  \<^verbatim>\<open>len(completed_trial_states) <= trial_state_nums - len(gpu_workers) * 3\<close>,
  gpu-first otherwise.
\<close>

datatype strategy = Round_robin | Gpu_first

definition selected_strategy :: "TrialScheduler \<Rightarrow> strategy" where
  "selected_strategy s =
     (if int (length (completed_trial_states s))
           \<le> trial_state_nums s - int (length (gpu_workers s)) * 3
      then Round_robin else Gpu_first)"

text \<open>
  \<^verbatim>\<open>assign_trial_to_worker\<close>. In the first branch the result of the strategy is
  bound to \<^verbatim>\<open>future\<close>; in the second branch \<^verbatim>\<open>gpu_first_strategy\<close> is
  called as a statement, so \<^verbatim>\<open>future\<close> keeps its initial \<^verbatim>\<open>None\<close>.
\<close>

definition assign_trial_to_worker :: "environment \<Rightarrow> TrialScheduler \<Rightarrow> TrialScheduler" where
  "assign_trial_to_worker env s0 =
     (let s1 = update_phase env s0;
          s = (if pending_trial_states s1 \<noteq> []
               then emit [Log INFO (Pending_list
                            (map trial_id (sort_key iteration (pending_trial_states s1))))] s1
               else s1);
          (future, s') =
            (case selected_strategy s of
               Round_robin \<Rightarrow>
                 (case round_robin_strategy env (pending_trial_states s) (gpu_workers s)
                         (cpu_workers s) (trial_phase s) of
                    (handle, pending, es) \<Rightarrow>
                      (handle, emit es (s\<lparr>pending_trial_states := pending\<rparr>)))
             | Gpu_first \<Rightarrow>
                 (case gpu_first_strategy env (pending_trial_states s) (gpu_workers s)
                         (cpu_workers s) of
                    (handle, pending, es) \<Rightarrow>
                      (None, emit es (s\<lparr>pending_trial_states := pending\<rparr>))))
      in case future of
           None \<Rightarrow> s'
         | Some f \<Rightarrow> s'\<lparr>running_futures := running_futures s' @ [f]\<rparr>)"

text \<open>
  \<^verbatim>\<open>ray.wait(running_futures, timeout=0.5)\<close> with its default
  \<^verbatim>\<open>num_returns=1\<close>: at most one ready handle, and the others in their order.
\<close>

fun ray_wait :: "(ObjectRef \<Rightarrow> bool) \<Rightarrow> ObjectRef list \<Rightarrow> ObjectRef list \<times> ObjectRef list" where
  "ray_wait rdy [] = ([], [])"
| "ray_wait rdy (f # fs) =
     (if rdy f then ([f], fs) else (case ray_wait rdy fs of (done, rest) \<Rightarrow> (done, f # rest)))"

text \<open>
  The last two statements of the loop body of \<^verbatim>\<open>handle_done_futures\<close>:
  \<^verbatim>\<open>worker_id = -1\<close> and \<^verbatim>\<open>worker_type = None\<close>.
\<close>

definition unassign :: "trial \<Rightarrow> trial" where
  "unassign ts = ts\<lparr>worker_id := - 1, worker_type := None\<rparr>"

text \<open>
  One iteration of the loop of \<^verbatim>\<open>handle_done_futures\<close>. The object appended
  to a list is the object whose \<^verbatim>\<open>worker_id\<close> and \<^verbatim>\<open>worker_type\<close> are
  reset afterwards, so the list holds the trial state as reset; the log records are
  formatted before the reset. An exception of \<^verbatim>\<open>ray.get\<close> (of the handle or of
  the tuner's mutation) leaves the \<^verbatim>\<open>try\<close> block for the handler, which logs it.
  A status that no branch tests (\<open>RUNNING\<close>) falls through to the reset.
\<close>

definition handle_future :: "environment \<Rightarrow> TrialScheduler \<Rightarrow> ObjectRef \<Rightarrow> TrialScheduler" where
  "handle_future env s future =
     (case ray_get env future of
        Inl e \<Rightarrow> emit [Log ERROR (Future_failed e)] s
      | Inr trial_state \<Rightarrow>
          (case status trial_state of
             TERMINATE \<Rightarrow>
               let completed = completed_trial_states s @ [unassign trial_state]
               in emit [Log INFO (Trial_done (worker_id trial_state) (trial_id trial_state)
                                    (accuracy trial_state)),
                        Log INFO (Completed_list (sort (map trial_id completed))),
                        Record_trial_progress (unassign trial_state)]
                    (s\<lparr>completed_trial_states := completed\<rparr>)
           | NEED_MUTATION \<Rightarrow>
               (case tuner_mutation env trial_state of
                  Inl e \<Rightarrow> emit [Tuner_mutation trial_state, Log ERROR (Future_failed e)] s
                | Inr mutated \<Rightarrow>
                    let requeued = unassign (mutated\<lparr>status := PENDING\<rparr>)
                    in emit [Tuner_mutation trial_state, Record_trial_progress requeued]
                         (s\<lparr>pending_trial_states := pending_trial_states s @ [requeued]\<rparr>))
           | PAUSE \<Rightarrow>
               let paused = trial_state\<lparr>status := PENDING\<rparr>
               in emit [Log INFO (Trial_returned (worker_id paused) (trial_id paused)
                                    (iteration paused) (accuracy paused)),
                        Record_trial_progress (unassign paused)]
                    (s\<lparr>pending_trial_states := pending_trial_states s @ [unassign paused]\<rparr>)
           | PENDING \<Rightarrow>
               emit [Log WARNING (Collision (trial_id trial_state)),
                     Record_trial_progress (unassign trial_state)]
                 (s\<lparr>pending_trial_states := pending_trial_states s @ [unassign trial_state]\<rparr>)
           | RUNNING \<Rightarrow>
               emit [Record_trial_progress (unassign trial_state)] s))"

definition handle_done_futures :: "environment \<Rightarrow> ObjectRef list \<Rightarrow> TrialScheduler \<Rightarrow> TrialScheduler" where
  "handle_done_futures env done_futures s = foldl (handle_future env) s done_futures"

definition print_iteration_count :: "TrialScheduler \<Rightarrow> TrialScheduler" where
  "print_iteration_count s =
     (let iteration_counts =
            sort_key fst (map (\<lambda>i. (trial_id i, device_iteration_count i))
                            (completed_trial_states s))
      in emit [Print_iteration_count
                 (map (\<lambda>(index, v). (index, v CPU, v GPU)) iteration_counts)
                 (sum_list (map (\<lambda>i. snd i CPU) iteration_counts),
                  sum_list (map (\<lambda>i. snd i GPU) iteration_counts))] s)"

text \<open>
  The part of the loop body of \<^verbatim>\<open>run\<close> after the \<^verbatim>\<open>break\<close> test: the
  wait and the routing of what is done.
\<close>

definition wait_and_handle :: "environment \<Rightarrow> TrialScheduler \<Rightarrow> TrialScheduler" where
  "wait_and_handle env s =
     (case ray_wait (ready env) (running_futures s) of
        (done_futures, rest) \<Rightarrow>
          (if done_futures \<noteq> []
           then handle_done_futures env done_futures (s\<lparr>running_futures := rest\<rparr>)
           else s\<lparr>running_futures := rest\<rparr>))"

text \<open>
  The loop of \<^verbatim>\<open>run\<close>. Nothing bounds the number of passes (a worker may never
  answer), so the loop is run against the list of the environments of its passes:
  \<open>None\<close> says that the loop has not ended when they are used up. The loop ends with
  \<open>Inr\<close> and the scheduler when its condition fails or at the \<^verbatim>\<open>break\<close>. It
  ends with \<open>Inl\<close> when a request of the dispatch raises: nothing in
  \<^verbatim>\<open>assign_trial_to_worker\<close> or \<^verbatim>\<open>run\<close> catches the exception, which
  leaves \<^verbatim>\<open>run\<close> before anything else is done (\<open>assign_trial_to_worker\<close> and the
  strategies describe the pass in which every request is answered).
\<close>

fun run_loop :: "environment list \<Rightarrow> TrialScheduler \<Rightarrow> (error + TrialScheduler) option" where
  "run_loop [] s =
     (if int (length (completed_trial_states s)) < trial_state_nums s then None
      else Some (Inr s))"
| "run_loop (env # envs) s =
     (if int (length (completed_trial_states s)) < trial_state_nums s
      then (case dispatch_failure env of
              Some e \<Rightarrow> Some (Inl e)
            | None \<Rightarrow>
                (let s1 = assign_trial_to_worker env s
                 in if running_futures s1 = [] \<and> pending_trial_states s1 = []
                    then Some (Inr s1)
                    else run_loop envs (wait_and_handle env s1)))
      else Some (Inr s))"

text \<open>
  \<^verbatim>\<open>run\<close>: the start record, the loop, and after the loop, however it ended
  short of an exception, the printed counts and the record that all trials are done.
\<close>

definition run :: "environment list \<Rightarrow> TrialScheduler \<Rightarrow> (error + TrialScheduler) option" where
  "run envs s =
     (case run_loop envs (emit [Log INFO Training_started] s) of
        None \<Rightarrow> None
      | Some (Inl e) \<Rightarrow> Some (Inl e)
      | Some (Inr s') \<Rightarrow> Some (Inr (emit [Log INFO All_trials_done] (print_iteration_count s'))))"

text \<open>
  The schedulers at the start of the passes of the loop of \<^verbatim>\<open>run\<close>, in order:
  the states in which \<^verbatim>\<open>assign_trial_to_worker\<close> is called and picks its
  strategy.
\<close>

fun ticks :: "environment list \<Rightarrow> TrialScheduler \<Rightarrow> TrialScheduler list" where
  "ticks [] s = []"
| "ticks (env # envs) s =
     (if int (length (completed_trial_states s)) < trial_state_nums s
      then s # (case dispatch_failure env of
                  Some e \<Rightarrow> []
                | None \<Rightarrow>
                    (let s1 = assign_trial_to_worker env s
                     in if running_futures s1 = [] \<and> pending_trial_states s1 = []
                        then []
                        else ticks envs (wait_and_handle env s1)))
      else [])"

text \<open>
  Between two states of a run the population size and the GPU workers stay what they
  are, and the completed list is only appended to.
\<close>

definition grows :: "TrialScheduler \<Rightarrow> TrialScheduler \<Rightarrow> bool" where
  "grows s s' \<longleftrightarrow>
     trial_state_nums s' = trial_state_nums s \<and> gpu_workers s' = gpu_workers s
     \<and> (\<exists>more. completed_trial_states s' = completed_trial_states s @ more)"

section \<open>The tuner's mutation\<close>

text \<open>
  Inside the tuner actor the trial states of the ledger are Python objects, and the
  attribute \<^verbatim>\<open>hyperparameter\<close> of each refers to a \<^verbatim>\<open>Hyperparameter\<close>
  object that \<^verbatim>\<open>mutation\<close> updates in place
  (\<^verbatim>\<open>hyperparameter.lr *= 0.8\<close>). The store maps the address of such an object to
  its current contents; a trial state of the ledger holds the address.
\<close>

type_synonym addr = nat

type_synonym trial_object = "addr TrialState"

datatype tuner_message =
    Mutation_started int Hyperparameter
  | Mutation_finished int int Hyperparameter

record Tuner =
  store :: "addr \<Rightarrow> Hyperparameter"
  trial_progress :: "trial_object list"
  tuner_log :: "tuner_message list"

text \<open>
  What a trial state of the ledger reads as: its fields, with the contents of the
  hyperparameter object it refers to. This is also what serialising it yields.
\<close>

definition load :: "(addr \<Rightarrow> Hyperparameter) \<Rightarrow> trial_object \<Rightarrow> trial" where
  "load h obj =
     \<lparr>trial_id = trial_id obj, hyperparameter = h (hyperparameter obj),
      checkpoint = checkpoint obj, iteration = iteration obj,
      stop_iteration = stop_iteration obj, phase = phase obj, accuracy = accuracy obj,
      status = status obj, worker_id = worker_id obj, worker_type = worker_type obj,
      device_iteration_count = device_iteration_count obj\<rparr>"

definition ledger :: "Tuner \<Rightarrow> trial list" where
  "ledger tu = map (load (store tu)) (trial_progress tu)"

text \<open>
  Modelled from the spec: \<^verbatim>\<open>TrialResult.get_quantile\<close> (its module
  \<^verbatim>\<open>trial_state.py\<close> is not part of the sources). Section 4.2: with \<open>N\<close> the
  population size and \<open>k = floor(N * ratio)\<close>, the ledger values are sorted by accuracy,
  ascending, and the result is \<open>(values[:k], values[N-k:])\<close>; for \<open>k = 0\<close> the lower
  list is empty and the upper list is the whole list. The lists hold the trial states of
  the ledger themselves (slices of a sorted list of the values), not copies.
\<close>

definition get_quantile :: "real \<Rightarrow> trial_object list \<Rightarrow> trial_object list \<times> trial_object list" where
  "get_quantile ratio vals =
     (let n = length vals;
          k = nat \<lfloor>real n * ratio\<rfloor>;
          sorted_values = sort_key accuracy vals
      in (take k sorted_values,
          if k = 0 then sorted_values else drop (n - k) sorted_values))"

definition get_quantile_trial :: "Tuner \<Rightarrow> real \<Rightarrow> trial_object list \<times> trial_object list" where
  "get_quantile_trial tu ratio = get_quantile ratio (trial_progress tu)"

text \<open>
  \<^verbatim>\<open>random.choice(seq)\<close> raises \<^verbatim>\<open>IndexError\<close> on an empty sequence and
  returns \<^verbatim>\<open>seq[i]\<close> otherwise, \<open>i\<close> being the random generator's draw below
  \<^verbatim>\<open>len(seq)\<close>. The draw is an argument; its distribution (uniform, by the
  library's contract) is not modelled.
\<close>

definition random_choice :: "nat \<Rightarrow> 'a list \<Rightarrow> error + 'a" where
  "random_choice draw seq =
     (if seq = [] then Inl IndexError else Inr (seq ! (draw mod length seq)))"

text \<open>
  \<^verbatim>\<open>Tuner.mutation\<close>, called by the scheduler through the actor interface: the
  argument arrives as a copy and the result leaves as one. The default ratio of
  \<^verbatim>\<open>get_quantile_trial\<close> is 0.25. The local \<^verbatim>\<open>hyperparameter\<close> is the
  object the chosen trial refers to, not a copy of it, so the two in-place products
  write to that object, and \<^verbatim>\<open>trial_state.hyperparameter\<close> then refers to it too.
  The products of floats are products of reals here.
\<close>

definition mutation :: "nat \<Rightarrow> Tuner \<Rightarrow> trial \<Rightarrow> (error + trial) \<times> Tuner" where
  "mutation draw tu0 trial_state =
     (let tu = tu0\<lparr>tuner_log := tuner_log tu0 @
                   [Mutation_started (trial_id trial_state) (hyperparameter trial_state)]\<rparr>;
          (lower_quantile, upper_quantile) = get_quantile_trial tu 0.25
      in case random_choice draw upper_quantile of
           Inl e \<Rightarrow> (Inl e, tu)
         | Inr chose_trial \<Rightarrow>
             let hp = hyperparameter chose_trial;
                 h1 = (store tu)(hp := (store tu hp)\<lparr>lr := lr (store tu hp) * 0.8\<rparr>);
                 h2 = h1(hp := (h1 hp)\<lparr>momentum := momentum (h1 hp) * 1.2\<rparr>);
                 result = trial_state\<lparr>hyperparameter := h2 hp,
                                       checkpoint := checkpoint chose_trial\<rparr>
             in (Inr result,
                 tu\<lparr>store := h2,
                    tuner_log := tuner_log tu @
                      [Mutation_finished (trial_id result) (iteration result)
                         (hyperparameter result)]\<rparr>))"

text \<open>
  Modelled from the library's documentation: the draw of \<^verbatim>\<open>random.choice\<close> on a
  sequence of length \<open>n\<close> is uniform below \<open>n\<close>. A distribution is the list of its
  outcomes, each with its probability.
\<close>

definition randbelow :: "nat \<Rightarrow> (nat \<times> real) list" where
  "randbelow n = map (\<lambda>i. (i, 1 / real n)) [0..<n]"

text \<open>
  The outcomes of \<^verbatim>\<open>Tuner.mutation\<close> over the draws of its
  \<^verbatim>\<open>random.choice(upper_quantile)\<close>.
\<close>

definition mutation_distribution ::
  "Tuner \<Rightarrow> trial \<Rightarrow> (((error + trial) \<times> Tuner) \<times> real) list" where
  "mutation_distribution tu trial_state =
     map (\<lambda>(draw, p). (mutation draw tu trial_state, p))
       (randbelow (length (snd (get_quantile_trial tu 0.25))))"

section \<open>Concrete inputs\<close>

text \<open>
  A trial state as the repository's test builds one
  (\<^verbatim>\<open>TrialState(i, Hyperparameter(...), stop_iteration=100)\<close>), at a given
  iteration, phase and status, and not assigned to a worker.
\<close>

definition trial_at :: "int \<Rightarrow> int \<Rightarrow> int \<Rightarrow> TrialStatus \<Rightarrow> trial" where
  "trial_at i n p st =
     \<lparr>trial_id = i,
      hyperparameter = \<lparr>lr = 0.1, momentum = 0.5, batch_size = 64, model_type = ''RESNET_18''\<rparr>,
      checkpoint = None, iteration = n, stop_iteration = 100, phase = p, accuracy = 0,
      status = st, worker_id = - 1, worker_type = None, device_iteration_count = (\<lambda>_. 0)\<rparr>"

text \<open>
  An environment in which the workers answer with the given slot counts and active
  trials, the tuner's ledger is empty, every handle is ready and resolves as given, and
  no request raises.
\<close>

definition answers ::
  "(ActorHandle \<Rightarrow> int) \<Rightarrow> (ActorHandle \<Rightarrow> trial list) \<Rightarrow> (ObjectRef \<Rightarrow> error + trial) \<Rightarrow> environment" where
  "answers slots active resolve =
     \<lparr>available_slots = slots, active_trials = active, tuner_progress = [],
      tuner_mutation = (\<lambda>ts. Inr ts), ready = (\<lambda>_. True), ray_get = resolve,
      dispatch_failure = None\<rparr>"

text \<open>
  A handle resolves to the trial state it was made for, as the worker hands it back: with
  the status given for its id, and with the worker's id and type filled in.
\<close>

definition returns :: "(int \<Rightarrow> TrialStatus) \<Rightarrow> ObjectRef \<Rightarrow> error + trial" where
  "returns status_of f =
     (case f of ObjectRef w ts \<Rightarrow>
        Inr (ts\<lparr>status := status_of (trial_id ts), worker_id := int w, worker_type := Some CPU\<rparr>))"

text \<open>A handle whose \<^verbatim>\<open>ray.get\<close> raises.\<close>

definition fails :: "ObjectRef \<Rightarrow> error + trial" where
  "fails f = Inl (RayError ''worker died'')"

definition all_free :: "(ObjectRef \<Rightarrow> error + trial) \<Rightarrow> environment" where
  "all_free resolve = answers (\<lambda>_. 1) (\<lambda>_. []) resolve"

text \<open>
  Schedulers as constructed for workers 0 (a GPU) and 1 (a CPU), or for one CPU worker;
  the effects of the construction are put aside, so that \<open>effects\<close> shows what happens
  from then on.
\<close>

definition one_gpu_one_cpu :: "trial list \<Rightarrow> TrialScheduler" where
  "one_gpu_one_cpu trial_states =
     (TrialScheduler_init 10 5 (\<lambda>w. if w = 0 then GPU else CPU) [0, 1] trial_states)
       \<lparr>effects := []\<rparr>"

definition one_cpu :: "trial list \<Rightarrow> TrialScheduler" where
  "one_cpu trial_states =
     (TrialScheduler_init 10 5 (\<lambda>w. CPU) [0] trial_states)\<lparr>effects := []\<rparr>"

text \<open>
  An environment whose tuner answers \<^verbatim>\<open>mutation\<close> as \<open>mutation\<close> does in the
  given tuner state, the random draw being 0.
\<close>

definition mutating :: "Tuner \<Rightarrow> environment" where
  "mutating tu =
     (all_free (returns (\<lambda>_. NEED_MUTATION)))\<lparr>tuner_mutation := (\<lambda>ts. fst (mutation 0 tu ts))\<rparr>"

text \<open>Three passes in which every worker has a free slot and every handle returns \<open>TERMINATE\<close>.\<close>

definition three_passes :: "environment list" where
  "three_passes = replicate 3 (all_free (returns (\<lambda>_. TERMINATE)))"

text \<open>
  A tuner whose ledger holds four trials, each with a hyperparameter object of its own
  (at the address that is the trial's id) and with checkpoint \<open>10 + id\<close>; their
  accuracies are 0.3, 0.9, 0.5 and 0.1, so the upper quantile of ratio 0.25 is trial 1.
\<close>

definition object_at :: "nat \<Rightarrow> real \<Rightarrow> trial_object" where
  "object_at i acc =
     \<lparr>trial_id = int i, hyperparameter = i, checkpoint = Some (10 + i), iteration = 5,
      stop_iteration = 100, phase = 1, accuracy = acc, status = PENDING, worker_id = - 1,
      worker_type = None, device_iteration_count = (\<lambda>_. 0)\<rparr>"

definition four_trials :: Tuner where
  "four_trials =
     \<lparr>store = (\<lambda>_. \<lparr>lr = 0.1, momentum = 0.5, batch_size = 64, model_type = ''RESNET_18''\<rparr>),
      trial_progress = [object_at 0 0.3, object_at 1 0.9, object_at 2 0.5, object_at 3 0.1],
      tuner_log = []\<rparr>"

text \<open>
  A tuner whose ledger holds eight trials with hyperparameter objects that differ: the
  object at address \<open>a\<close> has learning rate \<open>(a + 1) / 10\<close>, momentum \<open>(a + 1) / 20\<close>
  and batch size \<open>32 (a + 1)\<close>. The upper quantile of ratio 0.25 is trial 4 (accuracy
  0.7), then trial 1 (accuracy 0.9).
\<close>

definition graded :: "addr \<Rightarrow> Hyperparameter" where
  "graded a =
     \<lparr>lr = real (a + 1) / 10, momentum = real (a + 1) / 20, batch_size = 32 * (int a + 1),
      model_type = ''RESNET_18''\<rparr>"

definition eight_trials :: Tuner where
  "eight_trials =
     \<lparr>store = graded,
      trial_progress = [object_at 0 0.3, object_at 1 0.9, object_at 2 0.5, object_at 3 0.1,
                        object_at 4 0.7, object_at 5 0.2, object_at 6 0.6, object_at 7 0.4],
      tuner_log = []\<rparr>"

text \<open>A tuner whose ledger is empty: \<^verbatim>\<open>random.choice\<close> has nothing to choose from.\<close>

definition no_trials :: Tuner where
  "no_trials = \<lparr>store = graded, trial_progress = [], tuner_log = []\<rparr>"

definition three_pending :: "trial list" where
  "three_pending = [trial_at 0 3 0 PENDING, trial_at 1 5 0 PENDING, trial_at 2 9 1 PENDING]"

definition phase_0 :: TrialPhase where
  "phase_0 = \<lparr>phase_stop_iteration = 10, phase_iteration = 5, current_phase = 0\<rparr>"

section \<open>Lemmas on \<open>py_max\<close>, \<open>py_min\<close> and the worker queries\<close>

lemma py_max_first:
  "\<exists>pre post. b # xs = pre @ py_max key b xs # post
      \<and> (\<forall>y\<in>set pre. key y < key (py_max key b xs))
      \<and> (\<forall>y\<in>set post. key y \<le> key (py_max key b xs))"
proof (induction xs arbitrary: b)
  case Nil
  show ?case by (rule exI [of _ "[]"]) simp
next
  case (Cons x xs)
  show ?case
  proof (cases "key b < key x")
    case True
    define m where "m = py_max key x xs"
    have m: "py_max key b (x # xs) = m" using True by (simp add: m_def)
    from Cons.IH [of x] obtain pre post where
      sp: "x # xs = pre @ m # post"
      and lt: "\<forall>y\<in>set pre. key y < key m"
      and le: "\<forall>y\<in>set post. key y \<le> key m"
      unfolding m_def by blast
    have "x = m \<or> x \<in> set pre" using sp by (cases pre) auto
    then have "key x \<le> key m" using lt by fastforce
    then have "key b < key m" using True by simp
    then have "b # x # xs = (b # pre) @ m # post \<and> (\<forall>y\<in>set (b # pre). key y < key m)"
      using sp lt by simp
    then show ?thesis using le unfolding m by blast
  next
    case False
    define m where "m = py_max key b xs"
    have m: "py_max key b (x # xs) = m" using False by (simp add: m_def)
    from Cons.IH [of b] obtain pre post where
      sp: "b # xs = pre @ m # post"
      and lt: "\<forall>y\<in>set pre. key y < key m"
      and le: "\<forall>y\<in>set post. key y \<le> key m"
      unfolding m_def by blast
    show ?thesis
    proof (cases pre)
      case Nil
      then have "m = b" and "post = xs" using sp by simp_all
      then have "b # x # xs = [] @ m # (x # xs) \<and> (\<forall>y\<in>set (x # xs). key y \<le> key m)"
        using False le by auto
      then show ?thesis unfolding m by (metis empty_iff list.set(1))
    next
      case (Cons p ps)
      then have pb: "p = b" and xs: "xs = ps @ m # post" using sp by simp_all
      have "key b < key m" using lt Cons pb by simp
      then have "key x < key m" using False by simp
      then have "b # x # xs = (b # x # ps) @ m # post \<and> (\<forall>y\<in>set (b # x # ps). key y < key m)"
        using xs lt Cons pb by simp
      then show ?thesis using le unfolding m by blast
    qed
  qed
qed

lemma py_min_first:
  "\<exists>pre post. b # xs = pre @ py_min key b xs # post
      \<and> (\<forall>y\<in>set pre. key (py_min key b xs) < key y)
      \<and> (\<forall>y\<in>set post. key (py_min key b xs) \<le> key y)"
proof (induction xs arbitrary: b)
  case Nil
  show ?case by (rule exI [of _ "[]"]) simp
next
  case (Cons x xs)
  show ?case
  proof (cases "key x < key b")
    case True
    define m where "m = py_min key x xs"
    have m: "py_min key b (x # xs) = m" using True by (simp add: m_def)
    from Cons.IH [of x] obtain pre post where
      sp: "x # xs = pre @ m # post"
      and lt: "\<forall>y\<in>set pre. key m < key y"
      and le: "\<forall>y\<in>set post. key m \<le> key y"
      unfolding m_def by blast
    have "x = m \<or> x \<in> set pre" using sp by (cases pre) auto
    then have "key m \<le> key x" using lt by fastforce
    then have "key m < key b" using True by simp
    then have "b # x # xs = (b # pre) @ m # post \<and> (\<forall>y\<in>set (b # pre). key m < key y)"
      using sp lt by simp
    then show ?thesis using le unfolding m by blast
  next
    case False
    define m where "m = py_min key b xs"
    have m: "py_min key b (x # xs) = m" using False by (simp add: m_def)
    from Cons.IH [of b] obtain pre post where
      sp: "b # xs = pre @ m # post"
      and lt: "\<forall>y\<in>set pre. key m < key y"
      and le: "\<forall>y\<in>set post. key m \<le> key y"
      unfolding m_def by blast
    show ?thesis
    proof (cases pre)
      case Nil
      then have "m = b" and "post = xs" using sp by simp_all
      then have "b # x # xs = [] @ m # (x # xs) \<and> (\<forall>y\<in>set (x # xs). key m \<le> key y)"
        using False le by auto
      then show ?thesis unfolding m by (metis empty_iff list.set(1))
    next
      case (Cons p ps)
      then have pb: "p = b" and xs: "xs = ps @ m # post" using sp by simp_all
      have "key m < key b" using lt Cons pb by simp
      then have "key m < key x" using False by simp
      then have "b # x # xs = (b # x # ps) @ m # post \<and> (\<forall>y\<in>set (b # x # ps). key m < key y)"
        using xs lt Cons pb by simp
      then show ?thesis using le unfolding m by blast
    qed
  qed
qed

lemma py_max_mem: "py_max key b xs \<in> set (b # xs)"
  using py_max_first [of b xs key] by (metis in_set_conv_decomp)

lemma py_max_ge: "y \<in> set (b # xs) \<Longrightarrow> key y \<le> key (py_max key b xs)"
proof -
  assume y: "y \<in> set (b # xs)"
  obtain pre post where s: "b # xs = pre @ py_max key b xs # post"
      and "\<forall>y\<in>set pre. key y < key (py_max key b xs)"
      and "\<forall>y\<in>set post. key y \<le> key (py_max key b xs)"
    using py_max_first [of b xs key] by blast
  moreover have "y \<in> set pre \<or> y = py_max key b xs \<or> y \<in> set post"
    using y unfolding s by auto
  ultimately show ?thesis by fastforce
qed

lemma py_min_mem: "py_min key b xs \<in> set (b # xs)"
  using py_min_first [of b xs key] by (metis in_set_conv_decomp)

lemma py_min_le: "y \<in> set (b # xs) \<Longrightarrow> key (py_min key b xs) \<le> key y"
proof -
  assume y: "y \<in> set (b # xs)"
  obtain pre post where s: "b # xs = pre @ py_min key b xs # post"
      and "\<forall>y\<in>set pre. key (py_min key b xs) < key y"
      and "\<forall>y\<in>set post. key (py_min key b xs) \<le> key y"
    using py_min_first [of b xs key] by blast
  moreover have "y \<in> set pre \<or> y = py_min key b xs \<or> y \<in> set post"
    using y unfolding s by auto
  ultimately show ?thesis by fastforce
qed

lemma available_workers_eq:
  "available_workers env ws =
     map (\<lambda>w. (w, available_slots env w)) (filter (\<lambda>w. available_slots env w \<noteq> 0) ws)"
  unfolding available_workers_def by (induction ws) auto

lemma available_cpus_eq:
  "map fst (available_workers env ws) = filter (\<lambda>w. available_slots env w \<noteq> 0) ws"
  unfolding available_workers_eq by (induction ws) auto

lemma running_cpu_workers_empty:
  "running_cpu_workers env ws = [] \<longleftrightarrow> (\<forall>w\<in>set ws. active_trials env w = [])"
  by (induction ws) (auto split: list.splits)

lemma running_cpu_workers_sound:
  "(w, t) \<in> set (running_cpu_workers env ws) \<Longrightarrow>
     w \<in> set ws \<and> t \<in> set (active_trials env w)
     \<and> (\<forall>t'\<in>set (active_trials env w). iteration t \<le> iteration t')"
proof (induction ws)
  case Nil
  then show ?case by simp
next
  case (Cons v ws)
  show ?case
  proof (cases "active_trials env v")
    case Nil
    then show ?thesis using Cons by auto
  next
    case (Cons a as)
    note act = Cons
    show ?thesis
    proof (cases "(w, t) = (v, py_min iteration a as)")
      case True
      then have "w = v" and "t = py_min iteration a as" by simp_all
      then show ?thesis
        using act py_min_mem [of iteration a as] py_min_le [of _ a as iteration] by auto
    next
      case False
      then have "(w, t) \<in> set (running_cpu_workers env ws)"
        using Cons.prems act by auto
      then show ?thesis using Cons.IH by auto
    qed
  qed
qed

lemma running_cpu_workers_complete:
  "w \<in> set ws \<Longrightarrow> t' \<in> set (active_trials env w) \<Longrightarrow>
     \<exists>t. (w, t) \<in> set (running_cpu_workers env ws) \<and> iteration t \<le> iteration t'"
proof (induction ws)
  case Nil
  then show ?case by simp
next
  case (Cons v ws)
  show ?case
  proof (cases "w = v")
    case True
    obtain a as where act: "active_trials env v = a # as"
      using Cons.prems True by (cases "active_trials env v") auto
    have "iteration (py_min iteration a as) \<le> iteration t'"
      using py_min_le [of t' a as iteration] Cons.prems True act by simp
    then show ?thesis using True act by auto
  next
    case False
    then obtain t where "(w, t) \<in> set (running_cpu_workers env ws)" "iteration t \<le> iteration t'"
      using Cons by auto
    then show ?thesis by (auto split: list.splits)
  qed
qed

section \<open>Evaluation of the concrete inputs\<close>

lemma trial_at_fields:
  "trial_id (trial_at i n p st) = i" "iteration (trial_at i n p st) = n"
  "phase (trial_at i n p st) = p" "status (trial_at i n p st) = st"
  "accuracy (trial_at i n p st) = 0" "worker_id (trial_at i n p st) = - 1"
  "worker_type (trial_at i n p st) = None"
  by (simp_all add: trial_at_def)

lemma trial_at_eq:
  "trial_at i n p st = trial_at i' n' p' st' \<longleftrightarrow> i = i' \<and> n = n' \<and> p = p' \<and> st = st'"
  by (auto simp add: trial_at_def)

lemma trial_at_status: "(trial_at i n p st)\<lparr>status := st'\<rparr> = trial_at i n p st'"
  by (simp add: trial_at_def)

lemma unassign_trial_at: "unassign (trial_at i n p st) = trial_at i n p st"
  by (simp add: trial_at_def unassign_def)

lemma answers_fields:
  "available_slots (answers slots active resolve) = slots"
  "active_trials (answers slots active resolve) = active"
  "tuner_progress (answers slots active resolve) = []"
  "tuner_mutation (answers slots active resolve) = (\<lambda>ts. Inr ts)"
  "ready (answers slots active resolve) = (\<lambda>_. True)"
  "ray_get (answers slots active resolve) = resolve"
  "dispatch_failure (answers slots active resolve) = None"
  by (simp_all add: answers_def)

lemma returned_unassign:
  "unassign ((trial_at i n p st)\<lparr>status := st', worker_id := w, worker_type := wt\<rparr>) =
     trial_at i n p st'"
  by (simp add: trial_at_def unassign_def)

lemma returned_unassign':
  "unassign ((trial_at i n p st)\<lparr>worker_id := w, worker_type := wt\<rparr>) = trial_at i n p st"
  by (simp add: trial_at_def unassign_def)

lemma returned_fields:
  "status (ts\<lparr>status := st', worker_id := w, worker_type := wt\<rparr>) = st'"
  "worker_id (ts\<lparr>status := st', worker_id := w, worker_type := wt\<rparr>) = w"
  "trial_id (ts\<lparr>status := st', worker_id := w, worker_type := wt\<rparr>) = trial_id ts"
  "accuracy (ts\<lparr>status := st', worker_id := w, worker_type := wt\<rparr>) = accuracy ts"
  "iteration (ts\<lparr>status := st', worker_id := w, worker_type := wt\<rparr>) = iteration ts"
  by simp_all

lemmas scheduler_defs =
  assign_trial_to_worker_def update_phase_def TrialPhase_update_phase_def emit_def
  selected_strategy_def round_robin_strategy_def gpu_first_strategy_def available_workers_def
  wait_and_handle_def handle_done_futures_def handle_future_def print_iteration_count_def
  run_def TrialScheduler_init_def Let_def

lemmas example_defs =
  one_gpu_one_cpu_def one_cpu_def all_free_def answers_fields returns_def fails_def
  three_pending_def trial_at_fields trial_at_eq trial_at_status unassign_trial_at
  returned_unassign returned_unassign' returned_fields

lemma object_at_fields:
  "trial_id (object_at i acc) = int i" "hyperparameter (object_at i acc) = i"
  "checkpoint (object_at i acc) = Some (10 + i)" "accuracy (object_at i acc) = acc"
  by (simp_all add: object_at_def)

lemmas tuner_defs =
  mutation_def get_quantile_trial_def get_quantile_def random_choice_def ledger_def
  load_def four_trials_def eight_trials_def no_trials_def graded_def object_at_fields

section \<open>Lemmas on the run of the scheduler\<close>

lemma grows_refl: "grows s s"
  by (simp add: grows_def)

lemma grows_trans: "grows a b \<Longrightarrow> grows b c \<Longrightarrow> grows a c"
  by (auto simp add: grows_def)

lemma grows_emit: "grows s (emit es s)"
  by (simp add: grows_def emit_def)

lemma grows_update_phase: "grows s (update_phase env s)"
  by (simp add: grows_def update_phase_def emit_def Let_def)

lemma grows_assign: "grows s (assign_trial_to_worker env s)"
  by (auto simp add: grows_def assign_trial_to_worker_def update_phase_def emit_def Let_def
      split: strategy.splits prod.splits option.splits)

lemma grows_handle_future: "grows s (handle_future env s f)"
  by (auto simp add: grows_def handle_future_def emit_def Let_def
      split: sum.splits TrialStatus.splits)

lemma grows_handle_done_futures: "grows s (handle_done_futures env fs s)"
  unfolding handle_done_futures_def
proof (induction fs arbitrary: s)
  case Nil
  show ?case by (simp add: grows_refl)
next
  case (Cons f fs)
  have "grows s (handle_future env s f)" by (rule grows_handle_future)
  moreover have "grows (handle_future env s f) (foldl (handle_future env) (handle_future env s f) fs)"
    by (rule Cons.IH)
  ultimately show ?case using grows_trans by simp
qed

lemma grows_wait_and_handle: "grows s (wait_and_handle env s)"
proof -
  obtain d r where w: "ray_wait (ready env) (running_futures s) = (d, r)"
    by (cases "ray_wait (ready env) (running_futures s)") auto
  have a: "grows s (s\<lparr>running_futures := r\<rparr>)" by (simp add: grows_def)
  have "grows (s\<lparr>running_futures := r\<rparr>) (handle_done_futures env d (s\<lparr>running_futures := r\<rparr>))"
    by (rule grows_handle_done_futures)
  then have "grows s (handle_done_futures env d (s\<lparr>running_futures := r\<rparr>))"
    using a grows_trans by blast
  then show ?thesis using a w by (simp add: wait_and_handle_def)
qed

lemma grows_pass: "grows s (wait_and_handle env (assign_trial_to_worker env s))"
  using grows_assign grows_wait_and_handle grows_trans by blast

lemma grows_gpu_first:
  "grows s s' \<Longrightarrow> selected_strategy s = Gpu_first \<Longrightarrow> selected_strategy s' = Gpu_first"
  by (auto simp add: grows_def selected_strategy_def split: if_splits)

lemma ticks_grow: "b \<in> set (ticks envs s) \<Longrightarrow> grows s b"
proof (induction envs arbitrary: s)
  case Nil
  then show ?case by simp
next
  case (Cons env envs)
  let ?s1 = "assign_trial_to_worker env s"
  show ?case
  proof (cases "b = s")
    case True
    then show ?thesis by (simp add: grows_refl)
  next
    case False
    then have "b \<in> set (ticks envs (wait_and_handle env ?s1))"
      using Cons.prems by (auto simp add: Let_def split: if_splits option.splits)
    then have "grows (wait_and_handle env ?s1) b" by (rule Cons.IH)
    then show ?thesis using grows_pass grows_trans by blast
  qed
qed

lemma ticks_later:
  "ticks envs s = pre @ a # post \<Longrightarrow> b \<in> set post \<Longrightarrow> grows a b"
proof (induction envs arbitrary: s pre)
  case Nil
  then show ?case by simp
next
  case (Cons env envs)
  let ?s2 = "wait_and_handle env (assign_trial_to_worker env s)"
  have "ticks (env # envs) s \<noteq> []" using Cons.prems(1) by simp
  then have go: "int (length (completed_trial_states s)) < trial_state_nums s"
    by (auto split: if_splits)
  define rest where "rest = tl (ticks (env # envs) s)"
  have shape: "ticks (env # envs) s = s # rest"
    using go by (simp add: rest_def)
  have rest: "rest = [] \<or> rest = ticks envs ?s2"
    using go by (simp add: rest_def Let_def split: option.splits)
  have eq: "s # rest = pre @ a # post" using shape Cons.prems(1) by simp
  show ?case
  proof (cases pre)
    case Nil
    then have a: "a = s" and post: "post = rest"
      using eq by simp_all
    then have "b \<in> set (ticks envs ?s2)"
      using rest Cons.prems(2) by auto
    then have "grows ?s2 b" by (rule ticks_grow)
    then show ?thesis using a grows_pass grows_trans by blast
  next
    case (Cons p pre')
    then have "rest = pre' @ a # post" using eq by simp
    then have "ticks envs ?s2 = pre' @ a # post" using rest by auto
    then show ?thesis using Cons.IH Cons.prems(2) by blast
  qed
qed

lemma assign_dispatch:
  "(selected_strategy s = Round_robin \<longrightarrow>
      pending_trial_states (assign_trial_to_worker env s) =
        fst (snd (round_robin_strategy env (pending_trial_states s) (gpu_workers s)
                    (cpu_workers s) (trial_phase (update_phase env s)))))
   \<and> (selected_strategy s = Gpu_first \<longrightarrow>
      pending_trial_states (assign_trial_to_worker env s) =
        fst (snd (gpu_first_strategy env (pending_trial_states s) (gpu_workers s)
                    (cpu_workers s))))"
proof -
  define s1 where "s1 = update_phase env s"
  define s2 where "s2 = (if pending_trial_states s1 \<noteq> []
               then emit [Log INFO (Pending_list
                            (map trial_id (sort_key iteration (pending_trial_states s1))))] s1
               else s1)"
  have same1: "pending_trial_states s1 = pending_trial_states s" "gpu_workers s1 = gpu_workers s"
    "cpu_workers s1 = cpu_workers s" "completed_trial_states s1 = completed_trial_states s"
    "trial_state_nums s1 = trial_state_nums s"
    by (simp_all add: s1_def update_phase_def emit_def Let_def)
  have same2: "pending_trial_states s2 = pending_trial_states s" "gpu_workers s2 = gpu_workers s"
    "cpu_workers s2 = cpu_workers s" "completed_trial_states s2 = completed_trial_states s"
    "trial_state_nums s2 = trial_state_nums s" "trial_phase s2 = trial_phase s1"
    using same1 by (simp_all add: s2_def emit_def)
  have sel: "selected_strategy s2 = selected_strategy s"
    by (simp add: selected_strategy_def same2)
  show ?thesis
    unfolding assign_trial_to_worker_def Let_def s1_def [symmetric] s2_def [symmetric] sel
    by (auto simp add: same2 emit_def split: prod.splits option.splits)
qed


section \<open>Properties of the strategies\<close>

text \<open>
  C10. Called with an empty pending list, the round-robin strategy returns no handle at
  once: it sends no request to any worker (no slot query, no assignment, no signal) and
  leaves the pending list as it is, whatever the workers would have answered.
\<close>

theorem round_robin_empty_pending:
  "round_robin_strategy env [] gpus cpus tp = (None, [], [])"
  by (simp add: round_robin_strategy_def)

text \<open>
  C6. Round-robin with a non-empty pending list. Write \<open>free_cpus\<close> and \<open>free_gpus\<close>
  for the CPU and GPU workers that report a non-zero slot count, in the scheduler's
  order, and \<open>candidates\<close> for the pending trials whose phase is at most the current
  phase. If there is a free CPU worker and a candidate, a candidate of maximum iteration
  is removed from pending and assigned to the first free CPU worker. Otherwise, if there
  is a free GPU worker, the free GPU worker with the most slots, the first of them in
  case of a tie, is assigned a pending trial of minimum iteration. Otherwise no handle is
  returned and nothing is assigned.
\<close>

theorem round_robin_nonempty_pending:
  fixes env pending gpus cpus tp
  defines "free_cpus \<equiv> filter (\<lambda>w. available_slots env w \<noteq> 0) cpus"
    and "free_gpus \<equiv> filter (\<lambda>w. available_slots env w \<noteq> 0) gpus"
    and "candidates \<equiv> filter (\<lambda>t. phase t \<le> current_phase tp) pending"
  assumes nonempty: "pending \<noteq> []"
  shows
    "(free_cpus \<noteq> [] \<and> candidates \<noteq> [] \<longrightarrow>
        (\<exists>t. round_robin_strategy env pending gpus cpus tp =
                (Some (ObjectRef (hd free_cpus) t), remove1 t pending,
                 map Get_available_slots cpus @ [Assign_trial (hd free_cpus) t])
           \<and> t \<in> set candidates \<and> (\<forall>c\<in>set candidates. iteration c \<le> iteration t)))
     \<and> (\<not> (free_cpus \<noteq> [] \<and> candidates \<noteq> []) \<and> free_gpus \<noteq> [] \<longrightarrow>
        (\<exists>w t pre post. round_robin_strategy env pending gpus cpus tp =
                (Some (ObjectRef w t), remove1 t pending,
                 map Get_available_slots cpus @ map Get_available_slots gpus @ [Assign_trial w t])
           \<and> free_gpus = pre @ w # post
           \<and> (\<forall>g\<in>set pre. available_slots env g < available_slots env w)
           \<and> (\<forall>g\<in>set post. available_slots env g \<le> available_slots env w)
           \<and> t \<in> set pending \<and> (\<forall>p\<in>set pending. iteration t \<le> iteration p)))
     \<and> (\<not> (free_cpus \<noteq> [] \<and> candidates \<noteq> []) \<and> free_gpus = [] \<longrightarrow>
        round_robin_strategy env pending gpus cpus tp =
          (None, pending, map Get_available_slots cpus @ map Get_available_slots gpus))"
proof -
  obtain p ps where pending: "pending = p # ps"
    using nonempty by (cases pending) auto
  have cpus_eq: "map fst (available_workers env cpus) = free_cpus"
    unfolding free_cpus_def by (rule available_cpus_eq)
  have gpus_eq: "available_workers env gpus = map (\<lambda>w. (w, available_slots env w)) free_gpus"
    unfolding free_gpus_def by (rule available_workers_eq)
  have cand_eq: "filter (\<lambda>t. phase t \<le> current_phase tp) (p # ps) = candidates"
    unfolding candidates_def pending by simp
  have cpu_case: "\<exists>t. round_robin_strategy env pending gpus cpus tp =
                (Some (ObjectRef (hd free_cpus) t), remove1 t pending,
                 map Get_available_slots cpus @ [Assign_trial (hd free_cpus) t])
           \<and> t \<in> set candidates \<and> (\<forall>c\<in>set candidates. iteration c \<le> iteration t)"
    if some: "free_cpus \<noteq> [] \<and> candidates \<noteq> []"
  proof -
    obtain worker rest where w: "free_cpus = worker # rest"
      using some by (cases free_cpus) auto
    obtain c cs where c: "candidates = c # cs"
      using some by (cases candidates) auto
    have "round_robin_strategy env pending gpus cpus tp =
            (Some (ObjectRef worker (py_max iteration c cs)),
             remove1 (py_max iteration c cs) pending,
             map Get_available_slots cpus @ [Assign_trial worker (py_max iteration c cs)])"
      unfolding round_robin_strategy_def pending list.case Let_def cpus_eq cand_eq
      by (simp add: w c)
    moreover have "py_max iteration c cs \<in> set candidates"
      using py_max_mem [of iteration c cs] c by simp
    moreover have "\<forall>x\<in>set candidates. iteration x \<le> iteration (py_max iteration c cs)"
      using py_max_ge [of _ c cs iteration] c by simp
    ultimately show ?thesis using w by simp
  qed
  have fall_through: "round_robin_strategy env pending gpus cpus tp =
      (case available_workers env gpus of
         [] \<Rightarrow> (None, pending, map Get_available_slots cpus @ map Get_available_slots gpus)
       | g # gs \<Rightarrow>
           (Some (ObjectRef (fst (py_max snd g gs)) (py_min iteration p ps)),
            remove1 (py_min iteration p ps) pending,
            map Get_available_slots cpus @ map Get_available_slots gpus @
              [Assign_trial (fst (py_max snd g gs)) (py_min iteration p ps)]))"
    if none: "\<not> (free_cpus \<noteq> [] \<and> candidates \<noteq> [])"
    using none
    unfolding round_robin_strategy_def pending list.case Let_def cpus_eq cand_eq
    by (cases free_cpus; cases candidates) (simp_all split: list.splits)
  have gpu_case: "\<exists>w t pre post. round_robin_strategy env pending gpus cpus tp =
                (Some (ObjectRef w t), remove1 t pending,
                 map Get_available_slots cpus @ map Get_available_slots gpus @ [Assign_trial w t])
           \<and> free_gpus = pre @ w # post
           \<and> (\<forall>g\<in>set pre. available_slots env g < available_slots env w)
           \<and> (\<forall>g\<in>set post. available_slots env g \<le> available_slots env w)
           \<and> t \<in> set pending \<and> (\<forall>p\<in>set pending. iteration t \<le> iteration p)"
    if no_cpu: "\<not> (free_cpus \<noteq> [] \<and> candidates \<noteq> [])" and gpu: "free_gpus \<noteq> []"
  proof -
    obtain g gs where g: "available_workers env gpus = g # gs"
      using gpu gpus_eq by (cases "available_workers env gpus") auto
    define m where "m = py_max snd g gs"
    define t where "t = py_min iteration p ps"
    obtain pre post where sp: "g # gs = pre @ m # post"
      and lt: "\<forall>y\<in>set pre. snd y < snd m" and le: "\<forall>y\<in>set post. snd y \<le> snd m"
      using py_max_first [of g gs snd] unfolding m_def by blast
    have pairs: "\<forall>y\<in>set (g # gs). snd y = available_slots env (fst y)"
      using g gpus_eq by (metis (no_types, lifting) imageE list.set_map snd_conv fst_conv)
    have "map fst (map (\<lambda>w. (w, available_slots env w)) free_gpus) = free_gpus"
      by (simp add: comp_def)
    then have fg: "free_gpus = map fst (g # gs)"
      using g gpus_eq by metis
    have split: "free_gpus = map fst pre @ fst m # map fst post"
      unfolding fg sp by simp
    have m_slots: "snd m = available_slots env (fst m)"
      using pairs sp by simp
    have pre_lt: "\<forall>w\<in>set (map fst pre). available_slots env w < available_slots env (fst m)"
      using lt pairs sp m_slots by auto
    have post_le: "\<forall>w\<in>set (map fst post). available_slots env w \<le> available_slots env (fst m)"
      using le pairs sp m_slots by auto
    have res: "round_robin_strategy env pending gpus cpus tp =
                (Some (ObjectRef (fst m) t), remove1 t pending,
                 map Get_available_slots cpus @ map Get_available_slots gpus @
                   [Assign_trial (fst m) t])"
      using fall_through [OF no_cpu] g by (simp add: m_def t_def)
    have t_mem: "t \<in> set pending"
      using py_min_mem [of iteration p ps] by (simp add: t_def pending)
    have t_least: "\<forall>x\<in>set pending. iteration t \<le> iteration x"
      using py_min_le [of _ p ps iteration] by (simp add: t_def pending)
    show ?thesis
      using res split pre_lt post_le t_mem t_least by blast
  qed
  have idle_case: "round_robin_strategy env pending gpus cpus tp =
          (None, pending, map Get_available_slots cpus @ map Get_available_slots gpus)"
    if no_cpu: "\<not> (free_cpus \<noteq> [] \<and> candidates \<noteq> [])" and gpu: "free_gpus = []"
    using fall_through [OF no_cpu] gpu gpus_eq by simp
  show ?thesis
    using cpu_case gpu_case idle_case by blast
qed


theorem round_robin_nonempty_pending_witness:
  "three_pending \<noteq> []
   \<and> round_robin_strategy (answers (\<lambda>w. if w = 2 then 1 else 0) (\<lambda>_. []) (returns (\<lambda>_. PAUSE)))
        three_pending [0] [1, 2] phase_0 =
      (Some (ObjectRef 2 (trial_at 1 5 0 PENDING)),
       [trial_at 0 3 0 PENDING, trial_at 2 9 1 PENDING],
       [Get_available_slots 1, Get_available_slots 2, Assign_trial 2 (trial_at 1 5 0 PENDING)])
   \<and> round_robin_strategy (answers (\<lambda>w. if w = 0 then 1 else if w = 3 \<or> w = 4 then 2 else 0)
          (\<lambda>_. []) (returns (\<lambda>_. PAUSE)))
        three_pending [0, 3, 4] [1, 2] phase_0 =
      (Some (ObjectRef 3 (trial_at 0 3 0 PENDING)),
       [trial_at 1 5 0 PENDING, trial_at 2 9 1 PENDING],
       [Get_available_slots 1, Get_available_slots 2, Get_available_slots 0,
        Get_available_slots 3, Get_available_slots 4, Assign_trial 3 (trial_at 0 3 0 PENDING)])
   \<and> round_robin_strategy (answers (\<lambda>_. 0) (\<lambda>_. []) (returns (\<lambda>_. PAUSE)))
        three_pending [0] [1, 2] phase_0 =
      (None, three_pending,
       [Get_available_slots 1, Get_available_slots 2, Get_available_slots 0])"
  using
    round_robin_nonempty_pending [where pending = three_pending and gpus = "[0]"
      and cpus = "[1, 2]" and tp = phase_0
      and env = "answers (\<lambda>w. if w = 2 then 1 else 0) (\<lambda>_. []) (returns (\<lambda>_. PAUSE))"]
    round_robin_nonempty_pending [where pending = three_pending and gpus = "[0, 3, 4]"
      and cpus = "[1, 2]" and tp = phase_0
      and env = "answers (\<lambda>w. if w = 0 then 1 else if w = 3 \<or> w = 4 then 2 else 0)
                   (\<lambda>_. []) (returns (\<lambda>_. PAUSE))"]
    round_robin_nonempty_pending [where pending = three_pending and gpus = "[0]"
      and cpus = "[1, 2]" and tp = phase_0
      and env = "answers (\<lambda>_. 0) (\<lambda>_. []) (returns (\<lambda>_. PAUSE))"]
  by (simp add: round_robin_strategy_def available_workers_def Let_def three_pending_def
        phase_0_def trial_at_fields trial_at_eq answers_fields)

text \<open>
  C2, as the code has it. When no GPU worker reports a free slot, the gpu-first strategy
  returns no handle at once: it asks no CPU worker for its running trials and sends no
  signal. It is when some GPU worker has a free slot and nothing is pending that it asks
  every CPU worker for its running trials and, if there is one, sends the worker of a
  running trial of globally minimum iteration a signal naming that trial, returning no
  handle.
\<close>

theorem gpu_first_preemption:
  "(available_workers env gpus = [] \<longrightarrow>
      gpu_first_strategy env pending gpus cpus = (None, pending, map Get_available_slots gpus))
   \<and> (available_workers env gpus \<noteq> [] \<and> pending = [] \<longrightarrow>
      (\<exists>es. gpu_first_strategy env pending gpus cpus =
               (None, [], map Get_available_slots gpus @ map Get_active_trials cpus @ es)
         \<and> (if \<forall>w\<in>set cpus. active_trials env w = [] then es = []
            else \<exists>w t. es = [Log INFO (Preempt_trial (trial_id t)), Send_signal w (trial_id t)]
                   \<and> w \<in> set cpus \<and> t \<in> set (active_trials env w)
                   \<and> (\<forall>w'\<in>set cpus. \<forall>t'\<in>set (active_trials env w').
                         iteration t \<le> iteration t'))))"
proof (intro conjI impI)
  assume "available_workers env gpus = []"
  then show "gpu_first_strategy env pending gpus cpus = (None, pending, map Get_available_slots gpus)"
    by (simp add: gpu_first_strategy_def)
next
  assume a: "available_workers env gpus \<noteq> [] \<and> pending = []"
  then obtain g gs where g: "available_workers env gpus = g # gs"
    by (cases "available_workers env gpus") auto
  show "\<exists>es. gpu_first_strategy env pending gpus cpus =
               (None, [], map Get_available_slots gpus @ map Get_active_trials cpus @ es)
         \<and> (if \<forall>w\<in>set cpus. active_trials env w = [] then es = []
            else \<exists>w t. es = [Log INFO (Preempt_trial (trial_id t)), Send_signal w (trial_id t)]
                   \<and> w \<in> set cpus \<and> t \<in> set (active_trials env w)
                   \<and> (\<forall>w'\<in>set cpus. \<forall>t'\<in>set (active_trials env w').
                         iteration t \<le> iteration t'))"
  proof (cases "running_cpu_workers env cpus")
    case Nil
    then have idle: "\<forall>w\<in>set cpus. active_trials env w = []"
      using running_cpu_workers_empty by blast
    have "gpu_first_strategy env pending gpus cpus =
            (None, [], map Get_available_slots gpus @ map Get_active_trials cpus @ [])"
      using a g Nil by (simp add: gpu_first_strategy_def)
    then show ?thesis using idle by auto
  next
    case (Cons r rs)
    then have busy: "\<not> (\<forall>w\<in>set cpus. active_trials env w = [])"
      using running_cpu_workers_empty [of env cpus] by simp
    obtain w t where wt: "py_min (\<lambda>x. iteration (snd x)) r rs = (w, t)"
      by (cases "py_min (\<lambda>x. iteration (snd x)) r rs") auto
    have res: "gpu_first_strategy env pending gpus cpus =
            (None, [], map Get_available_slots gpus @ map Get_active_trials cpus @
               [Log INFO (Preempt_trial (trial_id t)), Send_signal w (trial_id t)])"
      using a g Cons wt by (simp add: gpu_first_strategy_def)
    have mem: "(w, t) \<in> set (running_cpu_workers env cpus)"
      using py_min_mem [of "\<lambda>x. iteration (snd x)" r rs] wt Cons by simp
    have least: "iteration t \<le> iteration t'"
      if w': "w' \<in> set cpus" and t': "t' \<in> set (active_trials env w')" for w' t'
    proof -
      obtain u where u: "(w', u) \<in> set (running_cpu_workers env cpus)" "iteration u \<le> iteration t'"
        using running_cpu_workers_complete [OF w' t'] by blast
      have "iteration (snd (py_min (\<lambda>x. iteration (snd x)) r rs)) \<le> iteration (snd (w', u))"
        using py_min_le [of "(w', u)" r rs "\<lambda>x. iteration (snd x)"] u(1) Cons by simp
      then show ?thesis using wt u(2) by simp
    qed
    show ?thesis
      using res busy running_cpu_workers_sound [OF mem] least by auto
  qed
qed


theorem gpu_first_preemption_witness:
  "available_workers (answers (\<lambda>_. 0) (\<lambda>w. if w = 1 then [trial_at 7 4 0 RUNNING] else [])
       (returns (\<lambda>_. PAUSE))) [0] = []
   \<and> gpu_first_strategy (answers (\<lambda>_. 0) (\<lambda>w. if w = 1 then [trial_at 7 4 0 RUNNING] else [])
       (returns (\<lambda>_. PAUSE))) three_pending [0] [1, 2] = (None, three_pending, [Get_available_slots 0])
   \<and> available_workers (answers (\<lambda>_. 1)
       (\<lambda>w. if w = 1 then [trial_at 7 4 0 RUNNING, trial_at 8 6 0 RUNNING]
            else [trial_at 9 2 0 RUNNING]) (returns (\<lambda>_. PAUSE))) [0] \<noteq> []
   \<and> gpu_first_strategy (answers (\<lambda>_. 1)
       (\<lambda>w. if w = 1 then [trial_at 7 4 0 RUNNING, trial_at 8 6 0 RUNNING]
            else [trial_at 9 2 0 RUNNING]) (returns (\<lambda>_. PAUSE))) [] [0] [1, 2] =
      (None, [],
       [Get_available_slots 0, Get_active_trials 1, Get_active_trials 2,
        Log INFO (Preempt_trial 9), Send_signal 2 9])"
  using
    gpu_first_preemption [where pending = three_pending and gpus = "[0]" and cpus = "[1, 2]"
      and env = "answers (\<lambda>_. 0) (\<lambda>w. if w = 1 then [trial_at 7 4 0 RUNNING] else [])
                   (returns (\<lambda>_. PAUSE))"]
    gpu_first_preemption [where pending = "[]" and gpus = "[0]" and cpus = "[1, 2]"
      and env = "answers (\<lambda>_. 1)
                   (\<lambda>w. if w = 1 then [trial_at 7 4 0 RUNNING, trial_at 8 6 0 RUNNING]
                        else [trial_at 9 2 0 RUNNING]) (returns (\<lambda>_. PAUSE))"]
  by (simp add: gpu_first_strategy_def available_workers_def Let_def
        trial_at_fields trial_at_eq answers_fields)

text \<open>
  C2 as stated fails: no GPU worker has a free slot, CPU worker 1 is running trial 7, and
  the strategy neither asks a CPU worker for its running trials nor sends a signal.
\<close>

theorem gpu_first_no_free_gpu_counterexample:
  "filter (\<lambda>w. available_slots (answers (\<lambda>_. 0)
       (\<lambda>w. if w = 1 then [trial_at 7 4 0 RUNNING] else []) (returns (\<lambda>_. PAUSE))) w \<noteq> 0) [0] = []
   \<and> active_trials (answers (\<lambda>_. 0) (\<lambda>w. if w = 1 then [trial_at 7 4 0 RUNNING] else [])
       (returns (\<lambda>_. PAUSE))) 1 = [trial_at 7 4 0 RUNNING]
   \<and> gpu_first_strategy (answers (\<lambda>_. 0) (\<lambda>w. if w = 1 then [trial_at 7 4 0 RUNNING] else [])
       (returns (\<lambda>_. PAUSE))) [] [0] [1] = (None, [], [Get_available_slots 0])
   \<and> Get_active_trials 1 \<notin> set (snd (snd (gpu_first_strategy (answers (\<lambda>_. 0)
       (\<lambda>w. if w = 1 then [trial_at 7 4 0 RUNNING] else []) (returns (\<lambda>_. PAUSE))) [] [0] [1])))
   \<and> Send_signal 1 7 \<notin> set (snd (snd (gpu_first_strategy (answers (\<lambda>_. 0)
       (\<lambda>w. if w = 1 then [trial_at 7 4 0 RUNNING] else []) (returns (\<lambda>_. PAUSE))) [] [0] [1])))"
  by (simp add: gpu_first_strategy_def available_workers_def answers_fields)


section \<open>Properties of the scheduler\<close>

text \<open>
  C8. A pass of the scheduler's loop uses round-robin exactly when the number of
  completed trials is at most \<open>trial_state_nums\<close> minus three times the number of GPU
  workers, and gpu-first otherwise: the pending list after \<open>assign_trial_to_worker\<close> is
  the one the strategy so selected leaves. Along the passes of a run (\<open>ticks\<close>), against any
  environments, the completed list of a later pass extends that of an earlier one, and
  once a pass uses gpu-first, every later pass does.
\<close>

theorem strategy_switchover:
  "(selected_strategy s = Round_robin \<longleftrightarrow>
      int (length (completed_trial_states s))
        \<le> trial_state_nums s - 3 * int (length (gpu_workers s)))
   \<and> (selected_strategy s = Gpu_first \<longleftrightarrow>
      \<not> int (length (completed_trial_states s))
        \<le> trial_state_nums s - 3 * int (length (gpu_workers s)))
   \<and> (selected_strategy s = Round_robin \<longrightarrow>
      pending_trial_states (assign_trial_to_worker env s) =
        fst (snd (round_robin_strategy env (pending_trial_states s) (gpu_workers s)
                    (cpu_workers s) (trial_phase (update_phase env s)))))
   \<and> (selected_strategy s = Gpu_first \<longrightarrow>
      pending_trial_states (assign_trial_to_worker env s) =
        fst (snd (gpu_first_strategy env (pending_trial_states s) (gpu_workers s)
                    (cpu_workers s))))
   \<and> (\<forall>i j. i \<le> j \<and> j < length (ticks envs s)
        \<longrightarrow> (\<exists>more. completed_trial_states (ticks envs s ! j) =
                      completed_trial_states (ticks envs s ! i) @ more))
   \<and> (\<forall>i j. i \<le> j \<and> j < length (ticks envs s)
          \<and> selected_strategy (ticks envs s ! i) = Gpu_first
        \<longrightarrow> selected_strategy (ticks envs s ! j) = Gpu_first)"
proof -
  have later: "grows (ticks envs s ! i) (ticks envs s ! j)"
    if ij: "i \<le> j" and j: "j < length (ticks envs s)" for i j
  proof (cases "i = j")
    case True
    then show ?thesis by (simp add: grows_refl)
  next
    case False
    then have lt: "i < j" using ij by simp
    have i: "i < length (ticks envs s)" using lt j by simp
    have split: "ticks envs s = take i (ticks envs s) @ ticks envs s ! i # drop (Suc i) (ticks envs s)"
      using i by (rule id_take_nth_drop)
    have "ticks envs s ! j = drop (Suc i) (ticks envs s) ! (j - Suc i)"
      using lt j by simp
    moreover have "j - Suc i < length (drop (Suc i) (ticks envs s))"
      using lt j by simp
    ultimately have "ticks envs s ! j \<in> set (drop (Suc i) (ticks envs s))"
      by (metis nth_mem)
    then show ?thesis using ticks_later [OF split] by blast
  qed
  have a: "selected_strategy s = Round_robin \<longleftrightarrow>
      int (length (completed_trial_states s))
        \<le> trial_state_nums s - 3 * int (length (gpu_workers s))"
    by (simp add: selected_strategy_def mult.commute)
  have b: "selected_strategy s = Gpu_first \<longleftrightarrow>
      \<not> int (length (completed_trial_states s))
        \<le> trial_state_nums s - 3 * int (length (gpu_workers s))"
    by (simp add: selected_strategy_def mult.commute)
  have c: "\<forall>i j. i \<le> j \<and> j < length (ticks envs s)
        \<longrightarrow> (\<exists>more. completed_trial_states (ticks envs s ! j) =
                      completed_trial_states (ticks envs s ! i) @ more)"
    using later by (simp add: grows_def)
  have d: "\<forall>i j. i \<le> j \<and> j < length (ticks envs s)
          \<and> selected_strategy (ticks envs s ! i) = Gpu_first
        \<longrightarrow> selected_strategy (ticks envs s ! j) = Gpu_first"
    using later grows_gpu_first by blast
  show ?thesis using a b c d assign_dispatch [of s env] by blast
qed


theorem strategy_switchover_witness:
  "(1::nat) \<le> 2
   \<and> 2 < length (ticks three_passes (one_gpu_one_cpu three_pending))
   \<and> selected_strategy (ticks three_passes (one_gpu_one_cpu three_pending) ! 1) = Gpu_first
   \<and> selected_strategy (ticks three_passes (one_gpu_one_cpu three_pending) ! 2) = Gpu_first
   \<and> map selected_strategy (ticks three_passes (one_gpu_one_cpu three_pending)) =
       [Round_robin, Gpu_first, Gpu_first]
   \<and> map completed_trial_states (ticks three_passes (one_gpu_one_cpu three_pending)) =
       [[], [trial_at 1 5 0 TERMINATE], [trial_at 1 5 0 TERMINATE]]"
proof -
  let ?T = "ticks three_passes (one_gpu_one_cpu three_pending)"
  have sel: "map selected_strategy ?T = [Round_robin, Gpu_first, Gpu_first]"
    by (simp add: three_passes_def numeral_3_eq_3 scheduler_defs example_defs)
  have com: "map completed_trial_states ?T =
       [[], [trial_at 1 5 0 TERMINATE], [trial_at 1 5 0 TERMINATE]]"
    by (simp add: three_passes_def numeral_3_eq_3 scheduler_defs example_defs)
  have "length (map selected_strategy ?T) = 3" unfolding sel by simp
  then have len: "length ?T = 3" by simp
  have "map selected_strategy ?T ! 1 = Gpu_first" unfolding sel by simp
  then have one: "selected_strategy (?T ! 1) = Gpu_first" using len by simp
  have "(1::nat) \<le> 2 \<and> 2 < length ?T \<and> selected_strategy (?T ! 1) = Gpu_first"
    using len one by simp
  then have two: "selected_strategy (?T ! 2) = Gpu_first"
    using strategy_switchover [where s = "one_gpu_one_cpu three_pending" and envs = three_passes]
    by blast
  show ?thesis using sel com len one two by simp
qed


text \<open>
  C1 fails on the gpu-first branch. The scheduler has one GPU worker (0), one CPU worker
  (1) and one pending trial, so the pass uses gpu-first; the GPU worker has a free slot,
  and \<open>gpu_first_strategy\<close> assigns the trial and returns the handle. After
  \<open>assign_trial_to_worker\<close> the trial has left the pending list and the assignment has
  been sent, but \<open>running_futures\<close> is empty: the handle is nowhere. The loop of
  \<open>run\<close> then ends in its first pass, with no trial completed out of one.
\<close>

theorem gpu_first_handle_dropped:
  "selected_strategy (one_gpu_one_cpu [trial_at 0 0 0 PENDING]) = Gpu_first
   \<and> gpu_first_strategy (all_free (returns (\<lambda>_. TERMINATE))) [trial_at 0 0 0 PENDING] [0] [1] =
       (Some (ObjectRef 0 (trial_at 0 0 0 PENDING)), [],
        [Get_available_slots 0, Assign_trial 0 (trial_at 0 0 0 PENDING)])
   \<and> running_futures (assign_trial_to_worker (all_free (returns (\<lambda>_. TERMINATE)))
        (one_gpu_one_cpu [trial_at 0 0 0 PENDING])) = []
   \<and> pending_trial_states (assign_trial_to_worker (all_free (returns (\<lambda>_. TERMINATE)))
        (one_gpu_one_cpu [trial_at 0 0 0 PENDING])) = []
   \<and> effects (assign_trial_to_worker (all_free (returns (\<lambda>_. TERMINATE)))
        (one_gpu_one_cpu [trial_at 0 0 0 PENDING])) =
       [Get_trial_progress, Log INFO (Pending_list [0]),
        Get_available_slots 0, Assign_trial 0 (trial_at 0 0 0 PENDING)]
   \<and> map_option (map_sum id (\<lambda>s. (completed_trial_states s, trial_state_nums s)))
        (run [all_free (returns (\<lambda>_. TERMINATE))] (one_gpu_one_cpu [trial_at 0 0 0 PENDING])) =
       Some (Inr ([], 1))"
  by (simp add: scheduler_defs example_defs)


text \<open>
  C3 fails on the code. One CPU worker, one trial: the trial is assigned, its handle
  raises on \<^verbatim>\<open>ray.get\<close>, and the second pass finds nothing running and nothing
  pending and leaves the loop at the \<^verbatim>\<open>break\<close>. \<open>run\<close> returns with no trial
  completed out of one, and its last effects are the printed counts and the record that
  all trials are done, as after a complete run, whereas the method is documented to run
  until all trials are complete. In the second run the handle resolves to a trial state
  of status \<open>RUNNING\<close>; there the run records nothing but \<open>INFO\<close> lines.
\<close>

theorem run_lost_trial_reported_done:
  "map_option (map_sum id (\<lambda>s. (completed_trial_states s, trial_state_nums s, effects s)))
     (run [all_free fails, all_free fails] (one_cpu [trial_at 0 0 0 PENDING])) =
   Some (Inr ([], 1,
     [Log INFO Training_started,
      Get_trial_progress, Log INFO (Pending_list [0]),
      Get_available_slots 0, Assign_trial 0 (trial_at 0 0 0 PENDING),
      Log ERROR (Future_failed (RayError ''worker died'')),
      Get_trial_progress,
      Print_iteration_count [] (0, 0), Log INFO All_trials_done]))
   \<and> map_option (map_sum id (\<lambda>s. (completed_trial_states s, trial_state_nums s, effects s)))
     (run [all_free (returns (\<lambda>_. RUNNING)), all_free (returns (\<lambda>_. RUNNING))]
        (one_cpu [trial_at 0 0 0 PENDING])) =
   Some (Inr ([], 1,
     [Log INFO Training_started,
      Get_trial_progress, Log INFO (Pending_list [0]),
      Get_available_slots 0, Assign_trial 0 (trial_at 0 0 0 PENDING),
      Record_trial_progress (trial_at 0 0 0 RUNNING),
      Get_trial_progress,
      Print_iteration_count [] (0, 0), Log INFO All_trials_done]))"
  by (simp add: scheduler_defs example_defs)

text \<open>
  When a request of the dispatch raises, \<open>run\<close> ends with that exception: here in the
  second pass, after the only trial has been assigned and its handle has failed.
\<close>

lemma run_raises_with_the_request:
  "run [all_free fails, (all_free fails)\<lparr>dispatch_failure := Some (RayError ''worker died'')\<rparr>]
     (one_cpu [trial_at 0 0 0 PENDING]) = Some (Inl (RayError ''worker died''))"
  by (simp add: scheduler_defs example_defs)

text \<open>
  C5, as the code has it. A handle that resolves to a trial state of status
  \<open>RUNNING\<close> matches no branch of the routing: the trial state is appended to no list,
  nothing is logged, its worker fields are reset, it is pushed to the tuner with
  \<^verbatim>\<open>record_trial_progress\<close>, and the loop goes on with the next handle.
\<close>

theorem running_completion_is_skipped:
  assumes "ray_get env f = Inr ts" and "status ts = RUNNING"
  shows "handle_future env s f = emit [Record_trial_progress (unassign ts)] s
         \<and> pending_trial_states (handle_future env s f) = pending_trial_states s
         \<and> completed_trial_states (handle_future env s f) = completed_trial_states s
         \<and> running_futures (handle_future env s f) = running_futures s
         \<and> effects (handle_future env s f) = effects s @ [Record_trial_progress (unassign ts)]
         \<and> handle_done_futures env (f # fs) s =
             handle_done_futures env fs (emit [Record_trial_progress (unassign ts)] s)"
  using assms by (simp add: handle_future_def handle_done_futures_def emit_def)

theorem running_completion_is_skipped_witness:
  "ray_get (all_free (returns (\<lambda>i. if i = 1 then RUNNING else TERMINATE)))
       (ObjectRef 0 (trial_at 1 4 0 PENDING)) =
     Inr ((trial_at 1 4 0 PENDING)\<lparr>status := RUNNING, worker_id := 0, worker_type := Some CPU\<rparr>)
   \<and> status ((trial_at 1 4 0 PENDING)\<lparr>status := RUNNING, worker_id := 0, worker_type := Some CPU\<rparr>)
       = RUNNING
   \<and> handle_future (all_free (returns (\<lambda>i. if i = 1 then RUNNING else TERMINATE)))
       (one_cpu []) (ObjectRef 0 (trial_at 1 4 0 PENDING)) =
     emit [Record_trial_progress (trial_at 1 4 0 RUNNING)] (one_cpu [])"
  using running_completion_is_skipped [where s = "one_cpu []" and fs = "[]"
      and env = "all_free (returns (\<lambda>i. if i = 1 then RUNNING else TERMINATE))"
      and f = "ObjectRef 0 (trial_at 1 4 0 PENDING)"
      and ts = "(trial_at 1 4 0 PENDING)\<lparr>status := RUNNING, worker_id := 0, worker_type := Some CPU\<rparr>"]
  by (simp add: example_defs)


text \<open>
  C5 as stated fails. Of two handles, the first resolves to status \<open>RUNNING\<close> and the
  second to \<open>TERMINATE\<close>: the first leaves no trace but the progress record sent to the
  tuner, and the second is routed to the completed list as usual.
\<close>

theorem running_completion_counterexample:
  "map (\<lambda>f. map_sum id status
          (ray_get (all_free (returns (\<lambda>i. if i = 1 then RUNNING else TERMINATE))) f))
     [ObjectRef 0 (trial_at 1 4 0 PENDING), ObjectRef 0 (trial_at 2 10 2 PENDING)] =
     [Inr RUNNING, Inr TERMINATE]
   \<and> (\<lambda>s. (pending_trial_states s, completed_trial_states s, effects s))
       (handle_done_futures (all_free (returns (\<lambda>i. if i = 1 then RUNNING else TERMINATE)))
          [ObjectRef 0 (trial_at 1 4 0 PENDING), ObjectRef 0 (trial_at 2 10 2 PENDING)]
          (one_cpu [])) =
     ([], [trial_at 2 10 2 TERMINATE],
      [Record_trial_progress (trial_at 1 4 0 RUNNING),
       Log INFO (Trial_done 0 2 0), Log INFO (Completed_list [2]),
       Record_trial_progress (trial_at 2 10 2 TERMINATE)])"
  by (simp add: scheduler_defs example_defs)


text \<open>
  C9, as the code has it. A handle resolves to a trial state \<open>ts\<close>, and
  \<open>handle_done_futures\<close> goes on with the other handles from the state described.
  With status \<open>TERMINATE\<close>, \<open>ts\<close> is appended to the completed list. With
  \<open>NEED_MUTATION\<close> it is sent to the tuner's \<^verbatim>\<open>mutation\<close>: if the call returns,
  what it returns is set to \<open>PENDING\<close> and appended to the pending list; if the call
  raises, the exception is logged and that is all: the trial state is appended to no
  list, is not reset and is not sent to \<^verbatim>\<open>record_trial_progress\<close>. With \<open>PAUSE\<close>
  it is set to \<open>PENDING\<close> and appended to the pending list, iteration and accuracy as
  they were. With \<open>PENDING\<close> it is appended to the pending list and a warning is logged.
  In each case but that of a mutation that raises, the trial state that was appended has
  \<open>worker_id = -1\<close> and no worker type, and it is the last thing sent, to the tuner's
  \<^verbatim>\<open>record_trial_progress\<close>.
\<close>

theorem completion_routing:
  assumes "ray_get env f = Inr ts"
  shows
    "(status ts = TERMINATE \<longrightarrow>
        handle_done_futures env (f # fs) s =
          handle_done_futures env fs
            (s\<lparr>completed_trial_states := completed_trial_states s @ [unassign ts],
               effects := effects s @
                 [Log INFO (Trial_done (worker_id ts) (trial_id ts) (accuracy ts)),
                  Log INFO (Completed_list
                    (sort (map trial_id (completed_trial_states s @ [unassign ts])))),
                  Record_trial_progress (unassign ts)]\<rparr>))
     \<and> (status ts = NEED_MUTATION \<longrightarrow>
          (\<forall>m. tuner_mutation env ts = Inr m \<longrightarrow>
             handle_done_futures env (f # fs) s =
               handle_done_futures env fs
                 (s\<lparr>pending_trial_states :=
                      pending_trial_states s @ [unassign (m\<lparr>status := PENDING\<rparr>)],
                    effects := effects s @
                      [Tuner_mutation ts,
                       Record_trial_progress (unassign (m\<lparr>status := PENDING\<rparr>))]\<rparr>))
          \<and> (\<forall>e. tuner_mutation env ts = Inl e \<longrightarrow>
             handle_done_futures env (f # fs) s =
               handle_done_futures env fs
                 (s\<lparr>effects := effects s @
                      [Tuner_mutation ts, Log ERROR (Future_failed e)]\<rparr>)))
     \<and> (status ts = PAUSE \<longrightarrow>
          handle_done_futures env (f # fs) s =
            handle_done_futures env fs
              (s\<lparr>pending_trial_states :=
                   pending_trial_states s @ [unassign (ts\<lparr>status := PENDING\<rparr>)],
                 effects := effects s @
                   [Log INFO (Trial_returned (worker_id ts) (trial_id ts) (iteration ts)
                                (accuracy ts)),
                    Record_trial_progress (unassign (ts\<lparr>status := PENDING\<rparr>))]\<rparr>))
     \<and> (status ts = PENDING \<longrightarrow>
          handle_done_futures env (f # fs) s =
            handle_done_futures env fs
              (s\<lparr>pending_trial_states := pending_trial_states s @ [unassign ts],
                 effects := effects s @
                   [Log WARNING (Collision (trial_id ts)),
                    Record_trial_progress (unassign ts)]\<rparr>))
     \<and> handle_done_futures env [] s = s
     \<and> (\<forall>x. worker_id (unassign x) = - 1 \<and> worker_type (unassign x) = None
            \<and> trial_id (unassign x) = trial_id x
            \<and> status (unassign (x\<lparr>status := PENDING\<rparr>)) = PENDING
            \<and> iteration (unassign (x\<lparr>status := PENDING\<rparr>)) = iteration x
            \<and> accuracy (unassign (x\<lparr>status := PENDING\<rparr>)) = accuracy x)"
proof -
  have step: "handle_done_futures env (f # fs) s =
                handle_done_futures env fs (handle_future env s f)"
    by (simp add: handle_done_futures_def)
  have terminate: "handle_future env s f =
          s\<lparr>completed_trial_states := completed_trial_states s @ [unassign ts],
            effects := effects s @
              [Log INFO (Trial_done (worker_id ts) (trial_id ts) (accuracy ts)),
               Log INFO (Completed_list
                 (sort (map trial_id (completed_trial_states s @ [unassign ts])))),
               Record_trial_progress (unassign ts)]\<rparr>"
    if "status ts = TERMINATE"
    using assms that by (simp add: handle_future_def emit_def Let_def)
  have mutated: "handle_future env s f =
          s\<lparr>pending_trial_states :=
               pending_trial_states s @ [unassign (m\<lparr>status := PENDING\<rparr>)],
            effects := effects s @
              [Tuner_mutation ts,
               Record_trial_progress (unassign (m\<lparr>status := PENDING\<rparr>))]\<rparr>"
    if "status ts = NEED_MUTATION" and "tuner_mutation env ts = Inr m" for m
    using assms that by (simp add: handle_future_def emit_def Let_def)
  have raised: "handle_future env s f =
          s\<lparr>effects := effects s @ [Tuner_mutation ts, Log ERROR (Future_failed e)]\<rparr>"
    if "status ts = NEED_MUTATION" and "tuner_mutation env ts = Inl e" for e
    using assms that by (simp add: handle_future_def emit_def Let_def)
  have paused: "handle_future env s f =
          s\<lparr>pending_trial_states :=
               pending_trial_states s @ [unassign (ts\<lparr>status := PENDING\<rparr>)],
            effects := effects s @
              [Log INFO (Trial_returned (worker_id ts) (trial_id ts) (iteration ts)
                           (accuracy ts)),
               Record_trial_progress (unassign (ts\<lparr>status := PENDING\<rparr>))]\<rparr>"
    if "status ts = PAUSE"
    using assms that by (simp add: handle_future_def emit_def Let_def)
  have collided: "handle_future env s f =
          s\<lparr>pending_trial_states := pending_trial_states s @ [unassign ts],
            effects := effects s @
              [Log WARNING (Collision (trial_id ts)), Record_trial_progress (unassign ts)]\<rparr>"
    if "status ts = PENDING"
    using assms that by (simp add: handle_future_def emit_def Let_def)
  have none: "handle_done_futures env [] s = s"
    by (simp add: handle_done_futures_def)
  have reset: "\<forall>x. worker_id (unassign x) = - 1 \<and> worker_type (unassign x) = None
            \<and> trial_id (unassign x) = trial_id x
            \<and> status (unassign (x\<lparr>status := PENDING\<rparr>)) = PENDING
            \<and> iteration (unassign (x\<lparr>status := PENDING\<rparr>)) = iteration x
            \<and> accuracy (unassign (x\<lparr>status := PENDING\<rparr>)) = accuracy x"
    by (simp add: unassign_def)
  show ?thesis
    using terminate mutated raised paused collided none reset unfolding step by auto
qed

theorem completion_routing_witness:
  "(\<lambda>s. (pending_trial_states s, completed_trial_states s, effects s))
      (handle_done_futures (all_free (returns (\<lambda>_. TERMINATE)))
         [ObjectRef 0 (trial_at 2 10 2 PENDING)] (one_cpu [])) =
     ([], [trial_at 2 10 2 TERMINATE],
      [Log INFO (Trial_done 0 2 0), Log INFO (Completed_list [2]),
       Record_trial_progress (trial_at 2 10 2 TERMINATE)])
   \<and> (\<lambda>s. (pending_trial_states s, completed_trial_states s, effects s))
      (handle_done_futures (mutating eight_trials)
         [ObjectRef 0 (trial_at 3 5 1 PENDING)] (one_cpu [])) =
     ([(trial_at 3 5 1 PENDING)
         \<lparr>hyperparameter := \<lparr>lr = 0.4, momentum = 0.3, batch_size = 160,
                              model_type = ''RESNET_18''\<rparr>,
          checkpoint := Some 14\<rparr>], [],
      [Tuner_mutation ((trial_at 3 5 1 NEED_MUTATION)\<lparr>worker_id := 0, worker_type := Some CPU\<rparr>),
       Record_trial_progress
         ((trial_at 3 5 1 PENDING)
            \<lparr>hyperparameter := \<lparr>lr = 0.4, momentum = 0.3, batch_size = 160,
                                 model_type = ''RESNET_18''\<rparr>,
             checkpoint := Some 14\<rparr>)])
   \<and> (\<lambda>s. (pending_trial_states s, completed_trial_states s, effects s))
      (handle_done_futures (mutating no_trials)
         [ObjectRef 0 (trial_at 3 5 1 PENDING)] (one_cpu [])) =
     ([], [],
      [Tuner_mutation ((trial_at 3 5 1 NEED_MUTATION)\<lparr>worker_id := 0, worker_type := Some CPU\<rparr>),
       Log ERROR (Future_failed IndexError)])
   \<and> (\<lambda>s. (pending_trial_states s, completed_trial_states s, effects s))
      (handle_done_futures (all_free (returns (\<lambda>_. PAUSE)))
         [ObjectRef 0 (trial_at 1 4 0 PENDING)] (one_cpu [])) =
     ([trial_at 1 4 0 PENDING], [],
      [Log INFO (Trial_returned 0 1 4 0), Record_trial_progress (trial_at 1 4 0 PENDING)])
   \<and> (\<lambda>s. (pending_trial_states s, completed_trial_states s, effects s))
      (handle_done_futures (all_free (returns (\<lambda>_. PENDING)))
         [ObjectRef 0 (trial_at 1 4 0 PENDING)] (one_cpu [])) =
     ([trial_at 1 4 0 PENDING], [],
      [Log WARNING (Collision 1), Record_trial_progress (trial_at 1 4 0 PENDING)])"
  using
    completion_routing [where s = "one_cpu []" and f = "ObjectRef 0 (trial_at 2 10 2 PENDING)"
      and fs = "[]" and env = "all_free (returns (\<lambda>_. TERMINATE))"
      and ts = "(trial_at 2 10 2 PENDING)\<lparr>status := TERMINATE, worker_id := 0,
                                           worker_type := Some CPU\<rparr>"]
    completion_routing [where s = "one_cpu []" and f = "ObjectRef 0 (trial_at 3 5 1 PENDING)"
      and fs = "[]" and env = "mutating eight_trials"
      and ts = "(trial_at 3 5 1 PENDING)\<lparr>status := NEED_MUTATION, worker_id := 0,
                                          worker_type := Some CPU\<rparr>"]
    completion_routing [where s = "one_cpu []" and f = "ObjectRef 0 (trial_at 3 5 1 PENDING)"
      and fs = "[]" and env = "mutating no_trials"
      and ts = "(trial_at 3 5 1 PENDING)\<lparr>status := NEED_MUTATION, worker_id := 0,
                                          worker_type := Some CPU\<rparr>"]
    completion_routing [where s = "one_cpu []" and f = "ObjectRef 0 (trial_at 1 4 0 PENDING)"
      and fs = "[]" and env = "all_free (returns (\<lambda>_. PAUSE))"
      and ts = "(trial_at 1 4 0 PENDING)\<lparr>status := PAUSE, worker_id := 0,
                                          worker_type := Some CPU\<rparr>"]
    completion_routing [where s = "one_cpu []" and f = "ObjectRef 0 (trial_at 1 4 0 PENDING)"
      and fs = "[]" and env = "all_free (returns (\<lambda>_. PENDING))"
      and ts = "(trial_at 1 4 0 PENDING)\<lparr>status := PENDING, worker_id := 0,
                                          worker_type := Some CPU\<rparr>"]
  by (simp add: scheduler_defs example_defs tuner_defs mutating_def trial_at_def unassign_def)

text \<open>
  C9 as stated fails. The handle resolves to a trial state of status \<open>NEED_MUTATION\<close>,
  and the tuner's \<^verbatim>\<open>mutation\<close> raises (its ledger is empty, so
  \<^verbatim>\<open>random.choice\<close> raises \<^verbatim>\<open>IndexError\<close>): the trial state is not appended
  to the pending list, and nothing is sent to \<^verbatim>\<open>record_trial_progress\<close>.
\<close>

theorem mutation_raises_counterexample:
  "map_sum id status
      (ray_get (mutating no_trials) (ObjectRef 0 (trial_at 3 5 1 PENDING))) = Inr NEED_MUTATION
   \<and> (\<lambda>s. (pending_trial_states s, completed_trial_states s, effects s))
      (handle_done_futures (mutating no_trials)
         [ObjectRef 0 (trial_at 3 5 1 PENDING)] (one_cpu [])) =
     ([], [],
      [Tuner_mutation ((trial_at 3 5 1 NEED_MUTATION)\<lparr>worker_id := 0, worker_type := Some CPU\<rparr>),
       Log ERROR (Future_failed IndexError)])"
  by (simp add: scheduler_defs example_defs tuner_defs mutating_def trial_at_def unassign_def)

section \<open>Properties of the tuner's mutation\<close>

text \<open>
  C7. Let \<open>upper\<close> be the upper list of \<^verbatim>\<open>get_quantile(0.25)\<close>, not empty. The
  outcomes of \<open>mutation\<close> over the draws of \<^verbatim>\<open>random.choice\<close> are, position by
  position, the mutations from the elements of \<open>upper\<close>, each with probability one over
  the length of \<open>upper\<close>: the trial state with the donor's checkpoint, the donor's
  learning rate before the call times 0.8 and its momentum before the call times 1.2
  (the other hyperparameters are the donor's). For every single draw, the donor is the
  element of \<open>upper\<close> that \<^verbatim>\<open>random.choice\<close> picks for it. That the draw is uniform
  is the library's contract, which \<open>randbelow\<close> states.
\<close>

theorem mutation_donor_provenance:
  assumes "snd (get_quantile_trial tu 0.25) = upper" and "upper \<noteq> []"
  shows "map (\<lambda>(outcome, p). (fst outcome, p)) (mutation_distribution tu ts) =
           map (\<lambda>donor.
                  (Inr (ts\<lparr>hyperparameter :=
                              (hyperparameter (load (store tu) donor))
                                \<lparr>lr := lr (hyperparameter (load (store tu) donor)) * 0.8,
                                 momentum :=
                                   momentum (hyperparameter (load (store tu) donor)) * 1.2\<rparr>,
                            checkpoint := checkpoint donor\<rparr>),
                   1 / real (length upper))) upper
       \<and> sum_list (map snd (mutation_distribution tu ts)) = 1
       \<and> (\<forall>i<length upper. random_choice i upper = Inr (upper ! i))
       \<and> (\<forall>draw. \<exists>donor ts' tu'.
           random_choice draw upper = Inr donor \<and> donor \<in> set upper
           \<and> mutation draw tu ts = (Inr ts', tu')
           \<and> checkpoint ts' = checkpoint donor
           \<and> lr (hyperparameter ts') = lr (hyperparameter (load (store tu) donor)) * 0.8
           \<and> momentum (hyperparameter ts') = momentum (hyperparameter (load (store tu) donor)) * 1.2
           \<and> batch_size (hyperparameter ts') = batch_size (hyperparameter (load (store tu) donor))
           \<and> model_type (hyperparameter ts') = model_type (hyperparameter (load (store tu) donor)))"
proof -
  let ?from = "\<lambda>donor.
       ts\<lparr>hyperparameter :=
             (hyperparameter (load (store tu) donor))
               \<lparr>lr := lr (hyperparameter (load (store tu) donor)) * 0.8,
                momentum := momentum (hyperparameter (load (store tu) donor)) * 1.2\<rparr>,
           checkpoint := checkpoint donor\<rparr>"
  obtain lower where q: "get_quantile (1 / 4) (trial_progress tu) = (lower, upper)"
    using assms(1) by (cases "get_quantile (1 / 4) (trial_progress tu)") (simp add: get_quantile_trial_def)
  have n: "length (snd (get_quantile_trial tu (1 / 4))) = length upper"
    using assms(1) by simp
  have result: "fst (mutation draw tu ts) = Inr (?from (upper ! (draw mod length upper)))" for draw
    using q assms(2)
    by (simp add: mutation_def get_quantile_trial_def random_choice_def Let_def load_def)
  have every: "\<forall>i<length upper. random_choice i upper = Inr (upper ! i)"
    by (auto simp add: random_choice_def)
  have dist: "map (\<lambda>(outcome, p). (fst outcome, p)) (mutation_distribution tu ts) =
           map (\<lambda>donor. (Inr (?from donor), 1 / real (length upper))) upper"
  proof (rule nth_equalityI)
    show "length (map (\<lambda>(outcome, p). (fst outcome, p)) (mutation_distribution tu ts)) =
          length (map (\<lambda>donor. (Inr (?from donor), 1 / real (length upper))) upper)"
      by (simp add: mutation_distribution_def randbelow_def n)
  next
    fix i
    assume "i < length (map (\<lambda>(outcome, p). (fst outcome, p)) (mutation_distribution tu ts))"
    then have i: "i < length upper"
      by (simp add: mutation_distribution_def randbelow_def n)
    then have "map (\<lambda>(outcome, p). (fst outcome, p)) (mutation_distribution tu ts) ! i =
          (fst (mutation i tu ts), 1 / real (length upper))"
      by (simp add: mutation_distribution_def randbelow_def n)
    then show "map (\<lambda>(outcome, p). (fst outcome, p)) (mutation_distribution tu ts) ! i =
          map (\<lambda>donor. (Inr (?from donor), 1 / real (length upper))) upper ! i"
      using i result [of i] by simp
  qed
  have "map snd (mutation_distribution tu ts) = map (\<lambda>i. 1 / real (length upper)) [0..<length upper]"
    by (simp add: mutation_distribution_def randbelow_def n comp_def)
  then have total: "sum_list (map snd (mutation_distribution tu ts)) = 1"
    using assms(2) by (simp add: sum_list_triv)
  have single: "\<exists>donor ts' tu'.
           random_choice draw upper = Inr donor \<and> donor \<in> set upper
           \<and> mutation draw tu ts = (Inr ts', tu')
           \<and> checkpoint ts' = checkpoint donor
           \<and> lr (hyperparameter ts') = lr (hyperparameter (load (store tu) donor)) * 0.8
           \<and> momentum (hyperparameter ts') = momentum (hyperparameter (load (store tu) donor)) * 1.2
           \<and> batch_size (hyperparameter ts') = batch_size (hyperparameter (load (store tu) donor))
           \<and> model_type (hyperparameter ts') = model_type (hyperparameter (load (store tu) donor))"
    for draw
  proof -
    define donor where "donor = upper ! (draw mod length upper)"
    have choice: "random_choice draw upper = Inr donor"
      using assms(2) by (simp add: random_choice_def donor_def)
    have mem: "donor \<in> set upper"
      using assms(2) by (simp add: donor_def)
    have "fst (mutation draw tu ts) = Inr (?from donor)"
      using result [of draw] by (simp add: donor_def)
    then have "mutation draw tu ts = (Inr (?from donor), snd (mutation draw tu ts))"
      by (metis prod.collapse)
    then show ?thesis using choice mem by (intro exI [of _ donor] exI) auto
  qed
  show ?thesis using dist total every single by blast
qed

theorem mutation_donor_provenance_witness:
  "snd (get_quantile_trial eight_trials 0.25) = [object_at 4 0.7, object_at 1 0.9]
   \<and> [object_at 4 0.7, object_at 1 0.9] \<noteq> []
   \<and> map (\<lambda>(outcome, p). (fst outcome, p))
        (mutation_distribution eight_trials (trial_at 3 5 1 NEED_MUTATION)) =
       [(Inr ((trial_at 3 5 1 NEED_MUTATION)
                \<lparr>hyperparameter := \<lparr>lr = 0.4, momentum = 0.3, batch_size = 160,
                                     model_type = ''RESNET_18''\<rparr>,
                 checkpoint := Some 14\<rparr>), 1 / 2),
        (Inr ((trial_at 3 5 1 NEED_MUTATION)
                \<lparr>hyperparameter := \<lparr>lr = 0.16, momentum = 0.12, batch_size = 64,
                                     model_type = ''RESNET_18''\<rparr>,
                 checkpoint := Some 11\<rparr>), 1 / 2)]
   \<and> fst (mutation 0 eight_trials (trial_at 3 5 1 NEED_MUTATION)) =
       Inr ((trial_at 3 5 1 NEED_MUTATION)
                \<lparr>hyperparameter := \<lparr>lr = 0.4, momentum = 0.3, batch_size = 160,
                                     model_type = ''RESNET_18''\<rparr>,
                 checkpoint := Some 14\<rparr>)
   \<and> fst (mutation 1 eight_trials (trial_at 3 5 1 NEED_MUTATION)) =
       Inr ((trial_at 3 5 1 NEED_MUTATION)
                \<lparr>hyperparameter := \<lparr>lr = 0.16, momentum = 0.12, batch_size = 64,
                                     model_type = ''RESNET_18''\<rparr>,
                 checkpoint := Some 11\<rparr>)"
proof -
  have u: "snd (get_quantile_trial eight_trials 0.25) = [object_at 4 0.7, object_at 1 0.9]"
    by (simp add: tuner_defs Let_def)
  have n: "[object_at 4 0.7, object_at 1 0.9] \<noteq> []" by simp
  have "map (\<lambda>(outcome, p). (fst outcome, p))
        (mutation_distribution eight_trials (trial_at 3 5 1 NEED_MUTATION)) =
       [(Inr ((trial_at 3 5 1 NEED_MUTATION)
                \<lparr>hyperparameter := \<lparr>lr = 0.4, momentum = 0.3, batch_size = 160,
                                     model_type = ''RESNET_18''\<rparr>,
                 checkpoint := Some 14\<rparr>), 1 / 2),
        (Inr ((trial_at 3 5 1 NEED_MUTATION)
                \<lparr>hyperparameter := \<lparr>lr = 0.16, momentum = 0.12, batch_size = 64,
                                     model_type = ''RESNET_18''\<rparr>,
                 checkpoint := Some 11\<rparr>), 1 / 2)]"
    using mutation_donor_provenance [OF u n, of "trial_at 3 5 1 NEED_MUTATION"]
    by (simp add: load_def eight_trials_def graded_def object_at_fields)
  moreover have "fst (mutation 0 eight_trials (trial_at 3 5 1 NEED_MUTATION)) =
       Inr ((trial_at 3 5 1 NEED_MUTATION)
                \<lparr>hyperparameter := \<lparr>lr = 0.4, momentum = 0.3, batch_size = 160,
                                     model_type = ''RESNET_18''\<rparr>,
                 checkpoint := Some 14\<rparr>)"
    by (simp add: tuner_defs Let_def)
  moreover have "fst (mutation 1 eight_trials (trial_at 3 5 1 NEED_MUTATION)) =
       Inr ((trial_at 3 5 1 NEED_MUTATION)
                \<lparr>hyperparameter := \<lparr>lr = 0.16, momentum = 0.12, batch_size = 64,
                                     model_type = ''RESNET_18''\<rparr>,
                 checkpoint := Some 11\<rparr>)"
    by (simp add: tuner_defs Let_def)
  ultimately show ?thesis using u n by simp
qed

text \<open>
  C4 fails on the code: \<open>mutation\<close> scales the hyperparameter object of the donor in
  place. In the ledger of \<open>four_trials\<close> every trial has learning rate 0.1 and momentum
  0.5, and the upper quantile is trial 1. After \<open>mutation\<close> of trial 3, the ledger entry
  of the donor, trial 1, has learning rate 0.08 and momentum 0.6.
\<close>

theorem mutation_changes_donor:
  "map (\<lambda>t. (trial_id t, lr (hyperparameter t), momentum (hyperparameter t)))
      (ledger four_trials) =
     [(0, 0.1, 0.5), (1, 0.1, 0.5), (2, 0.1, 0.5), (3, 0.1, 0.5)]
   \<and> map (\<lambda>t. (trial_id t, lr (hyperparameter t), momentum (hyperparameter t)))
      (ledger (snd (mutation 0 four_trials (trial_at 3 5 1 NEED_MUTATION)))) =
     [(0, 0.1, 0.5), (1, 0.08, 0.6), (2, 0.1, 0.5), (3, 0.1, 0.5)]
   \<and> ledger (snd (mutation 0 four_trials (trial_at 3 5 1 NEED_MUTATION))) \<noteq> ledger four_trials"
proof -
  have a: "map (\<lambda>t. (trial_id t, lr (hyperparameter t), momentum (hyperparameter t)))
      (ledger four_trials) =
     [(0, 0.1, 0.5), (1, 0.1, 0.5), (2, 0.1, 0.5), (3, 0.1, 0.5)]"
    by (simp add: tuner_defs Let_def)
  have b: "map (\<lambda>t. (trial_id t, lr (hyperparameter t), momentum (hyperparameter t)))
      (ledger (snd (mutation 0 four_trials (trial_at 3 5 1 NEED_MUTATION)))) =
     [(0, 0.1, 0.5), (1, 0.08, 0.6), (2, 0.1, 0.5), (3, 0.1, 0.5)]"
    by (simp add: tuner_defs Let_def)
  have "ledger (snd (mutation 0 four_trials (trial_at 3 5 1 NEED_MUTATION))) \<noteq> ledger four_trials"
  proof
    assume "ledger (snd (mutation 0 four_trials (trial_at 3 5 1 NEED_MUTATION))) = ledger four_trials"
    then show False using a b by simp
  qed
  then show ?thesis using a b by simp
qed


end
